theory Spec2Isabelle
  imports Complex_Main "HOL-Library.Log_Nat"
begin

section \<open>The OpenAI response generators of the simulated API\<close>

text \<open>
  A shallow embedding of \<^verbatim>\<open>aoai_simulated_api/generator/openai.py\<close>: the deployment
  resolver \<^verbatim>\<open>get_model_name_from_deployment_name\<close> and the three generators
  \<^verbatim>\<open>azure_openai_embedding\<close>, \<^verbatim>\<open>azure_openai_completion\<close> and
  \<^verbatim>\<open>azure_openai_chat_completion\<close>, with the generator \<^verbatim>\<open>send_words\<close> of the
  streaming branch.

  Every Python exception is a value (\<open>Inl\<close> of an \<open>error\<close>). The module-level set
  \<^verbatim>\<open>missing_deployment_names\<close>, the logger and the dictionary \<^verbatim>\<open>context.values\<close> are
  fields of an explicit \<open>world\<close> that each function takes and returns; the world is
  returned also when the function raises, since what was written before the exception
  stays written.
\<close>

subsection \<open>Python values\<close>

text \<open>
  The values \<^verbatim>\<open>json.loads\<close> produces and \<^verbatim>\<open>json.dumps\<close> consumes. A dictionary is an
  association list in insertion order whose keys are distinct, so that \<open>map_of\<close> is the
  lookup. A Python float is an IEEE 754 double; a finite one is modelled by the real
  number it denotes, and every float operation rounds its exact result to the nearest
  double (see below). Infinities and NaN are not represented.
\<close>

datatype json =
    JNull
  | JBool bool
  | JInt int
  | JReal real
  | JStr string
  | JList "json list"
  | JObj "(string \<times> json) list"

datatype error =
    KeyError string
  | TypeError
  | AttributeError
  | ValueError
  | OverflowError
  | JSONDecodeError
  | TokenizerError

text \<open>Truth value testing, as \<^verbatim>\<open>if x:\<close> does it.\<close>

fun truthy :: "json \<Rightarrow> bool" where
  "truthy JNull = False"
| "truthy (JBool b) = b"
| "truthy (JInt n) = (n \<noteq> 0)"
| "truthy (JReal r) = (r \<noteq> 0)"
| "truthy (JStr s) = (s \<noteq> [])"
| "truthy (JList xs) = (xs \<noteq> [])"
| "truthy (JObj kvs) = (kvs \<noteq> [])"

text \<open>\<^verbatim>\<open>d[key]\<close> with a string key: only a dictionary accepts it.\<close>

fun subscript :: "json \<Rightarrow> string \<Rightarrow> error + json" where
  "subscript (JObj kvs) k = (case map_of kvs k of None \<Rightarrow> Inl (KeyError k) | Some v \<Rightarrow> Inr v)"
| "subscript _ k = Inl TypeError"

text \<open>\<^verbatim>\<open>d.get(key, default)\<close>: only a dictionary has the method.\<close>

fun dict_get :: "json \<Rightarrow> string \<Rightarrow> json \<Rightarrow> error + json" where
  "dict_get (JObj kvs) k d = (case map_of kvs k of None \<Rightarrow> Inr d | Some v \<Rightarrow> Inr v)"
| "dict_get _ k d = Inl AttributeError"

text \<open>
  \<^verbatim>\<open>for i in x\<close>: a list yields its elements, a dictionary its keys, a string its
  characters; nothing else is iterable.
\<close>

fun iterate :: "json \<Rightarrow> error + json list" where
  "iterate (JList xs) = Inr xs"
| "iterate (JObj kvs) = Inr (map (\<lambda>kv. JStr (fst kv)) kvs)"
| "iterate (JStr s) = Inr (map (\<lambda>c. JStr [c]) s)"
| "iterate _ = Inl TypeError"

text \<open>\<^verbatim>\<open>"".join(s)\<close> for a string \<open>s\<close>: the characters of \<open>s\<close>, joined by nothing.\<close>

definition join_empty :: "string \<Rightarrow> string" where
  "join_empty s = concat (map (\<lambda>c. [c]) s)"

text \<open>
  \<^verbatim>\<open>s.split(sep)\<close> for a separator of one character: split at every occurrence. The
  result is never empty: the empty string gives one empty word, and two adjacent
  separators give an empty word between them. \<open>cur\<close> holds the current word, reversed.
\<close>

fun split_acc :: "char \<Rightarrow> string \<Rightarrow> string \<Rightarrow> string list" where
  "split_acc sep cur [] = [rev cur]"
| "split_acc sep cur (c # cs) =
     (if c = sep then rev cur # split_acc sep [] cs else split_acc sep (c # cur) cs)"

definition split_on :: "char \<Rightarrow> string \<Rightarrow> string list" where
  "split_on sep s = split_acc sep [] s"

text \<open>\<^verbatim>\<open>" ".join(words)\<close>, the inverse of splitting at spaces.\<close>

fun join_space :: "string list \<Rightarrow> string" where
  "join_space [] = []"
| "join_space [word] = word"
| "join_space (word # rest) = word @ '' '' @ join_space rest"

subsection \<open>Double precision arithmetic\<close>

text \<open>
  \<open>pow2 e\<close> is \<open>2\<^sup>e\<close>. \<open>binade x\<close> is the exponent \<open>e\<close> with \<open>2\<^sup>e \<le> |x| < 2\<^sup>e\<^sup>+\<^sup>1\<close>,
  computed from the bit length of the integer part of \<open>|x|\<close> (of \<open>1 / |x|\<close> below one).
  Doubles have 53 significant bits, so the doubles around \<open>x\<close> are \<open>ulp x\<close> apart;
  below \<open>2\<^sup>-\<^sup>1\<^sup>0\<^sup>2\<^sup>2\<close> (the subnormal range) the spacing stays that of the lowest binade.
\<close>

definition pow2 :: "int \<Rightarrow> real" where
  "pow2 e = (if 0 \<le> e then 2 ^ nat e else 1 / 2 ^ nat (- e))"

definition binade :: "real \<Rightarrow> int" where
  "binade x =
     (if 1 \<le> \<bar>x\<bar> then bitlen \<lfloor>\<bar>x\<bar>\<rfloor> - 1 else - bitlen (\<lceil>1 / \<bar>x\<bar>\<rceil> - 1))"

definition ulp :: "real \<Rightarrow> real" where
  "ulp x = pow2 (max (binade x) (- 1022) - 52)"

text \<open>Rounding to the nearest integer, a tie going to the even one.\<close>

definition round_half_even :: "real \<Rightarrow> int" where
  "round_half_even y =
     (let f = \<lfloor>y\<rfloor>; d = y - real_of_int f
      in if d < 1 / 2 then f else if 1 / 2 < d then f + 1 else if even f then f else f + 1)"

text \<open>
  The double nearest to a real, ties to even: what a float literal, a float operation
  and the conversion of an int to a float deliver for an exact value \<open>x\<close> (not checked
  for overflow here).
\<close>

definition round_double :: "real \<Rightarrow> real" where
  "round_double x =
     (if x = 0 then 0 else real_of_int (round_half_even (x / ulp x)) * ulp x)"

text \<open>
  The conversion of an int to a float, as an arithmetic operator applies it to its int
  operand: the nearest double, and \<^verbatim>\<open>OverflowError\<close> when that is \<open>2\<^sup>1\<^sup>0\<^sup>2\<^sup>4\<close> or more in
  size.
\<close>

definition float_of_int :: "int \<Rightarrow> error + real" where
  "float_of_int n =
     (let r = round_double (real_of_int n)
      in if pow2 1024 \<le> \<bar>r\<bar> then Inl OverflowError else Inr r)"

text \<open>\<^verbatim>\<open>int(x)\<close> for a float \<open>x\<close>: truncation towards zero.\<close>

definition int_of_float :: "real \<Rightarrow> int" where
  "int_of_float x = (if 0 \<le> x then \<lfloor>x\<rfloor> else \<lceil>x\<rceil>)"

text \<open>
  \<^verbatim>\<open>f * x\<close> for a float \<open>f\<close> of size at most one (so that the product of two doubles
  cannot overflow): defined for an int, which is converted to a float first, a bool
  (an int in Python) and a float; a string, a list, a dictionary and \<^verbatim>\<open>None\<close> raise
  \<^verbatim>\<open>TypeError\<close>.
\<close>

fun float_times :: "real \<Rightarrow> json \<Rightarrow> error + real" where
  "float_times f (JInt n) =
     (case float_of_int n of Inl e \<Rightarrow> Inl e | Inr x \<Rightarrow> Inr (round_double (f * x)))"
| "float_times f (JBool b) = Inr (round_double (f * (if b then 1 else 0)))"
| "float_times f (JReal r) = Inr (round_double (f * r))"
| "float_times f _ = Inl TypeError"

subsection \<open>Requests, configuration, collaborators\<close>

record request =
  req_method :: string
  req_path :: string
  req_json :: "json option"
    \<comment> \<open>what \<^verbatim>\<open>await request.json()\<close> returns; \<open>None\<close> when the body is not JSON\<close>

record deployment =
  model :: string

text \<open>
  \<^verbatim>\<open>RequestContext\<close> as this module reads it: the request and
  \<^verbatim>\<open>config.openai_deployments\<close> (a dictionary or \<^verbatim>\<open>None\<close>). Its dictionary \<^verbatim>\<open>values\<close>
  is mutable and lives in the world below.
\<close>

record request_context =
  ctx_request :: request
  openai_deployments :: "(string \<times> deployment) list option"

text \<open>
  The keys of \<^verbatim>\<open>aoai_simulated_api.constants\<close>. The constants module is not part of the
  sources; its five names are taken as five distinct keys, \<open>OTHER_KEY\<close> standing for
  whatever else the simulator stores in \<^verbatim>\<open>context.values\<close>.
\<close>

datatype simulator_key =
    SIMULATOR_KEY_DEPLOYMENT_NAME
  | SIMULATOR_KEY_OPENAI_COMPLETION_TOKENS
  | SIMULATOR_KEY_OPENAI_TOTAL_TOKENS
  | SIMULATOR_KEY_LIMITER
  | SIMULATOR_KEY_OPERATION_NAME
  | OTHER_KEY string

datatype ctx_value = VStr string | VInt int

record world =
  missing_deployment_names :: "string set"
  warnings :: "(string \<times> string) list"
    \<comment> \<open>the arguments of each \<^verbatim>\<open>logger.warning\<close> call, oldest first\<close>
  ctx_values :: "simulator_key \<rightharpoonup> ctx_value"
  body_reads :: nat
    \<comment> \<open>how often \<^verbatim>\<open>request.json()\<close> was awaited\<close>
  word_requests :: "int list"
    \<comment> \<open>the \<^verbatim>\<open>count\<close> of each \<^verbatim>\<open>lorem.get_word\<close> call, oldest first\<close>

text \<open>
  The collaborators this module calls and does not define: the route matcher of the
  context, the two tokenizer functions of \<^verbatim>\<open>openai_tokens\<close>, \<^verbatim>\<open>lorem.get_word\<close>,
  \<^verbatim>\<open>nanoid.non_secure_generate(size=29)\<close>, \<^verbatim>\<open>int(time.time())\<close> and \<^verbatim>\<open>random.random()\<close>.
  The last three give a new value at every call: they are indexed by the number of
  calls made before, while the request is handled. A tokenizer receives whatever value
  the body holds and may raise.
\<close>

record externals =
  is_route_match :: "request \<Rightarrow> string \<Rightarrow> string list \<Rightarrow> bool \<times> (string \<rightharpoonup> string)"
  num_tokens_from_string :: "json \<Rightarrow> string \<Rightarrow> error + int"
  num_tokens_from_messages :: "json \<Rightarrow> string \<Rightarrow> error + int"
  get_word :: "int \<Rightarrow> error + string"
  nanoid :: "nat \<Rightarrow> string"
  time_now :: "nat \<Rightarrow> int"
  random_random :: "nat \<Rightarrow> real"

datatype emission =
    Data json
    \<comment> \<open>the string \<^verbatim>\<open>"data: " + json.dumps(chunk) + "\n"\<close>\<close>
  | Raw string

datatype response =
    Response int json "(string \<times> string) list"
    \<comment> \<open>status code, the value given to \<^verbatim>\<open>json.dumps\<close>, headers\<close>
  | StreamingResponse "emission list"
    \<comment> \<open>everything the generator yields when it is consumed to its end\<close>

text \<open>
  \<^verbatim>\<open>context.values[key] = v\<close>, and a run of such assignments in the order they are
  written.
\<close>

definition set_value :: "simulator_key \<Rightarrow> ctx_value \<Rightarrow> world \<Rightarrow> world" where
  "set_value k v w = w\<lparr>ctx_values := (ctx_values w)(k := Some v)\<rparr>"

fun publish :: "(simulator_key \<times> ctx_value) list \<Rightarrow> world \<Rightarrow> world" where
  "publish [] w = w"
| "publish (kv # rest) w = publish rest (set_value (fst kv) (snd kv) w)"

text \<open>
  Running a step that may raise: on an exception the handler stops with it, in the world
  as it is then; otherwise it goes on with the value.
\<close>

definition attempt ::
  "world \<Rightarrow> error + 'a \<Rightarrow> ('a \<Rightarrow> (error + 'b) \<times> world) \<Rightarrow> (error + 'b) \<times> world" where
  "attempt w r k = (case r of Inl e \<Rightarrow> (Inl e, w) | Inr v \<Rightarrow> k v)"

text \<open>\<^verbatim>\<open>path_params[name]\<close> and \<^verbatim>\<open>await request.json()\<close>.\<close>

definition path_param :: "(string \<rightharpoonup> string) \<Rightarrow> string \<Rightarrow> error + string" where
  "path_param path_params k =
     (case path_params k of None \<Rightarrow> Inl (KeyError k) | Some v \<Rightarrow> Inr v)"

definition request_json :: "request \<Rightarrow> error + json" where
  "request_json r = (case req_json r of None \<Rightarrow> Inl JSONDecodeError | Some b \<Rightarrow> Inr b)"

subsection \<open>The deployment resolver\<close>

text \<open>The literal \<^verbatim>\<open>0.72\<close>: the double nearest to \<open>72 / 100\<close>.\<close>

definition TOKEN_TO_WORD_FACTOR :: real where
  "TOKEN_TO_WORD_FACTOR = round_double (72 / 100)"

definition default_embedding_size :: nat where
  "default_embedding_size = 1536"

definition default_model :: string where
  "default_model = ''gpt-3.5-turbo-0613''"

definition get_model_name_from_deployment_name ::
  "request_context \<Rightarrow> string \<Rightarrow> world \<Rightarrow> string \<times> world" where
  "get_model_name_from_deployment_name context' deployment_name w =
     (case (case openai_deployments context' of
              None \<Rightarrow> None
            | Some deployments \<Rightarrow>
                if deployments \<noteq> [] then map_of deployments deployment_name else None) of
        Some deployment' \<Rightarrow> (model deployment', w)
      | None \<Rightarrow>
          if deployment_name \<notin> missing_deployment_names w
          then (default_model,
                w\<lparr>missing_deployment_names := insert deployment_name (missing_deployment_names w),
                  warnings := warnings w @ [(deployment_name, default_model)]\<rparr>)
          else (default_model, w))"

subsection \<open>Embeddings\<close>

text \<open>
  \<^verbatim>\<open>_generate_embedding(index)\<close>; \<open>drawn\<close> is the number of \<^verbatim>\<open>random.random()\<close> calls made
  before.
\<close>

definition generate_embedding :: "externals \<Rightarrow> nat \<Rightarrow> int \<Rightarrow> nat \<Rightarrow> json" where
  "generate_embedding ext drawn index embedding_size =
     JObj [(''object'', JStr ''embedding''),
           (''index'', JInt index),
           (''embedding'',
              JList (map (\<lambda>k. JReal ((random_random ext k - 1 / 2) * 4))
                       [drawn ..< drawn + embedding_size]))]"

text \<open>The loop \<^verbatim>\<open>for i in request_input\<close> over the items left, with its three variables.\<close>

fun embedding_loop ::
  "externals \<Rightarrow> string \<Rightarrow> json list \<Rightarrow> int \<Rightarrow> json list \<Rightarrow> int \<Rightarrow> error + (int \<times> json list)" where
  "embedding_loop ext model_name [] tokens embeddings index = Inr (tokens, embeddings)"
| "embedding_loop ext model_name (i # rest) tokens embeddings index =
     (case num_tokens_from_string ext i model_name of
        Inl e \<Rightarrow> Inl e
      | Inr n \<Rightarrow>
          embedding_loop ext model_name rest (tokens + n)
            (embeddings @
               [generate_embedding ext (length embeddings * default_embedding_size) index
                  default_embedding_size])
            (index + 1))"

definition embed_input :: "externals \<Rightarrow> string \<Rightarrow> json \<Rightarrow> error + (int \<times> json list)" where
  "embed_input ext model_name request_input =
     (case request_input of
        JStr s \<Rightarrow>
          (case num_tokens_from_string ext request_input model_name of
             Inl e \<Rightarrow> Inl e
           | Inr tokens \<Rightarrow> Inr (tokens, [generate_embedding ext 0 0 default_embedding_size]))
      | _ \<Rightarrow>
          (case iterate request_input of
             Inl e \<Rightarrow> Inl e
           | Inr items \<Rightarrow> embedding_loop ext model_name items 0 [] 0))"

definition azure_openai_embedding ::
  "externals \<Rightarrow> request_context \<Rightarrow> world \<Rightarrow> (error + response option) \<times> world" where
  "azure_openai_embedding ext context' w =
     (let request' = ctx_request context';
          (is_match, path_params) =
             is_route_match ext request' ''/openai/deployments/{deployment}/embeddings'' [''POST'']
      in if \<not> is_match then (Inr None, w)
         else
           attempt w (path_param path_params ''deployment'') (\<lambda>deployment_name.
           let w1 = w\<lparr>body_reads := Suc (body_reads w)\<rparr> in
           attempt w1 (request_json request') (\<lambda>request_body.
           let (model_name, w2) =
                 get_model_name_from_deployment_name context' deployment_name w1 in
           attempt w2 (subscript request_body ''input'') (\<lambda>request_input.
           attempt w2 (embed_input ext model_name request_input) (\<lambda>(tokens, embeddings).
           let response_data =
                 JObj [(''object'', JStr ''list''),
                       (''data'', JList embeddings),
                       (''model'', JStr ''ada''),
                       (''usage'',
                          JObj [(''prompt_tokens'', JInt tokens),
                                (''total_tokens'', JInt tokens)])];
               w3 = publish
                      [(SIMULATOR_KEY_LIMITER, VStr ''openai''),
                       (SIMULATOR_KEY_OPERATION_NAME, VStr ''embeddings''),
                       (SIMULATOR_KEY_DEPLOYMENT_NAME, VStr deployment_name),
                       (SIMULATOR_KEY_OPENAI_TOTAL_TOKENS, VInt tokens)] w2
           in (Inr (Some (Response 200 response_data
                            [(''Content-Type'', ''application/json'')])), w3))))))"

subsection \<open>Text completion and chat completion\<close>

text \<open>
  \<^verbatim>\<open>int(TOKEN_TO_WORD_FACTOR * max_tokens)\<close>, the expression both generators compute into
  \<^verbatim>\<open>words_to_generate\<close>.
\<close>

definition words_to_generate :: "json \<Rightarrow> error + int" where
  "words_to_generate max_tokens =
     (case float_times TOKEN_TO_WORD_FACTOR max_tokens of
        Inl e \<Rightarrow> Inl e
      | Inr x \<Rightarrow> Inr (int_of_float x))"

definition azure_openai_completion ::
  "externals \<Rightarrow> request_context \<Rightarrow> world \<Rightarrow> (error + response option) \<times> world" where
  "azure_openai_completion ext context' w =
     (let request' = ctx_request context';
          (is_match, path_params) =
             is_route_match ext request' ''/openai/deployments/{deployment}/completions'' [''POST'']
      in if \<not> is_match then (Inr None, w)
         else
           attempt w (path_param path_params ''deployment'') (\<lambda>deployment_name.
           let (model_name, w1) =
                 get_model_name_from_deployment_name context' deployment_name w;
               w2 = w1\<lparr>body_reads := Suc (body_reads w1)\<rparr> in
           attempt w2 (request_json request') (\<lambda>request_body.
           attempt w2 (subscript request_body ''prompt'') (\<lambda>prompt.
           attempt w2 (num_tokens_from_string ext prompt model_name) (\<lambda>prompt_tokens.
           attempt w2 (dict_get request_body ''max_tokens'' (JInt 4096)) (\<lambda>max_tokens.
           attempt w2 (words_to_generate max_tokens) (\<lambda>count.
           let w3 = w2\<lparr>word_requests := word_requests w2 @ [count]\<rparr> in
           attempt w3 (get_word ext count) (\<lambda>generated.
           let text' = join_empty generated in
           attempt w3 (num_tokens_from_string ext (JStr text') model_name) (\<lambda>completion_tokens.
           let total_tokens = prompt_tokens + completion_tokens;
               response_body =
                 JObj [(''id'', JStr (''cmpl-'' @ nanoid ext 0)),
                       (''object'', JStr ''text_completion''),
                       (''created'', JInt (time_now ext 0)),
                       (''model'', JStr model_name),
                       (''choices'',
                          JList [JObj [(''text'', JStr text'),
                                       (''index'', JInt 0),
                                       (''finish_reason'', JStr ''length''),
                                       (''logprobs'', JNull)]]),
                       (''usage'',
                          JObj [(''prompt_tokens'', JInt prompt_tokens),
                                (''completion_tokens'', JInt completion_tokens),
                                (''total_tokens'', JInt total_tokens)])];
               w4 = publish
                      [(SIMULATOR_KEY_LIMITER, VStr ''openai''),
                       (SIMULATOR_KEY_OPERATION_NAME, VStr ''completions''),
                       (SIMULATOR_KEY_DEPLOYMENT_NAME, VStr deployment_name),
                       (SIMULATOR_KEY_OPENAI_COMPLETION_TOKENS, VInt completion_tokens),
                       (SIMULATOR_KEY_OPENAI_TOTAL_TOKENS, VInt total_tokens)] w3
           in (Inr (Some (Response 200 response_body
                            [(''Content-Type'', ''application/json'')])), w4))))))))))"

text \<open>The four static content-safety categories, written out three times in the source.\<close>

definition content_filter_results :: json where
  "content_filter_results =
     JObj [(''hate'', JObj [(''filtered'', JBool False), (''severity'', JStr ''safe'')]),
           (''self_harm'', JObj [(''filtered'', JBool False), (''severity'', JStr ''safe'')]),
           (''sexual'', JObj [(''filtered'', JBool False), (''severity'', JStr ''safe'')]),
           (''violence'', JObj [(''filtered'', JBool False), (''severity'', JStr ''safe'')])]"

text \<open>
  The chunk \<^verbatim>\<open>send_words\<close> builds for one word; \<open>k\<close> counts the chunks built before, each
  of which took one id and read the clock once.
\<close>

definition chunk :: "externals \<Rightarrow> string \<Rightarrow> nat \<Rightarrow> string \<Rightarrow> string \<Rightarrow> json" where
  "chunk ext model_name k space word =
     JObj [(''id'', JStr (''chatcmpl-'' @ nanoid ext k)),
           (''object'', JStr ''chat.completion.chunk''),
           (''created'', JInt (time_now ext k)),
           (''model_name'', JStr model_name),
           (''system_fingerprint'', JNull),
           (''choices'',
              JList [JObj [(''delta'',
                              JObj [(''content'', JStr (space @ word)),
                                    (''function_call'', JNull),
                                    (''role'', JNull),
                                    (''tool_calls'', JNull),
                                    (''finish_reason'', JNull),
                                    (''index'', JInt 0),
                                    (''logprobs'', JNull),
                                    (''content_filter_results'', content_filter_results)]),
                           (''message'',
                              JObj [(''role'', JStr ''assistant''),
                                    (''content'', JStr word)])]])]"

text \<open>
  The loop of \<^verbatim>\<open>send_words\<close> over the words left: two yields per word, then the
  sentinel. The pause of 50 ms after each word yields nothing and is not modelled.
\<close>

fun send_words_loop :: "externals \<Rightarrow> string \<Rightarrow> string list \<Rightarrow> string \<Rightarrow> nat \<Rightarrow> emission list" where
  "send_words_loop ext model_name [] space k = [Raw ''[DONE]'']"
| "send_words_loop ext model_name (word # rest) space k =
     Data (chunk ext model_name k space word) # Raw [CHR 0x0A] #
       send_words_loop ext model_name rest '' '' (Suc k)"

definition send_words :: "externals \<Rightarrow> string \<Rightarrow> string \<Rightarrow> emission list" where
  "send_words ext model_name generated =
     send_words_loop ext model_name (split_on (CHR '' '') generated) [] 0"

definition azure_openai_chat_completion ::
  "externals \<Rightarrow> request_context \<Rightarrow> world \<Rightarrow> (error + response option) \<times> world" where
  "azure_openai_chat_completion ext context' w =
     (let request' = ctx_request context';
          (is_match, path_params) =
             is_route_match ext request' ''/openai/deployments/{deployment}/chat/completions''
               [''POST'']
      in if \<not> is_match then (Inr None, w)
         else
           let w1 = w\<lparr>body_reads := Suc (body_reads w)\<rparr> in
           attempt w1 (request_json request') (\<lambda>request_body.
           attempt w1 (path_param path_params ''deployment'') (\<lambda>deployment_name.
           let (model_name, w2) =
                 get_model_name_from_deployment_name context' deployment_name w1 in
           attempt w2 (subscript request_body ''messages'') (\<lambda>messages.
           attempt w2 (num_tokens_from_messages ext messages model_name) (\<lambda>prompt_tokens.
           attempt w2 (dict_get request_body ''max_tokens'' (JInt 4096)) (\<lambda>max_tokens.
           attempt w2 (words_to_generate max_tokens) (\<lambda>count.
           let w3 = w2\<lparr>word_requests := word_requests w2 @ [count]\<rparr> in
           attempt w3 (get_word ext count) (\<lambda>generated.
           attempt w3 (dict_get request_body ''stream'' (JBool False)) (\<lambda>stream.
           if truthy stream
           then (Inr (Some (StreamingResponse (send_words ext model_name generated))), w3)
           else
             let text' = join_empty generated in
             attempt w3 (num_tokens_from_string ext (JStr text') model_name) (\<lambda>completion_tokens.
             let total_tokens = prompt_tokens + completion_tokens;
                 response_body =
                   JObj [(''id'', JStr (''chatcmpl-'' @ nanoid ext 0)),
                         (''object'', JStr ''chat.completion''),
                         (''created'', JInt (time_now ext 0)),
                         (''model'', JStr model_name),
                         (''prompt_filter_results'',
                            JList [JObj [(''prompt_index'', JInt 0),
                                         (''content_filter_results'', content_filter_results)]]),
                         (''choices'',
                            JList [JObj [(''finish_reason'', JStr ''length''),
                                         (''index'', JInt 0),
                                         (''message'',
                                            JObj [(''role'', JStr ''assistant''),
                                                  (''content'', JStr text')]),
                                         (''content_filter_results'', content_filter_results)]]),
                         (''usage'',
                            JObj [(''prompt_tokens'', JInt prompt_tokens),
                                  (''completion_tokens'', JInt completion_tokens),
                                  (''total_tokens'', JInt total_tokens)])];
                 w4 = publish
                        [(SIMULATOR_KEY_LIMITER, VStr ''openai''),
                         (SIMULATOR_KEY_OPERATION_NAME, VStr ''chat-completions''),
                         (SIMULATOR_KEY_DEPLOYMENT_NAME, VStr deployment_name),
                         (SIMULATOR_KEY_OPENAI_COMPLETION_TOKENS, VInt completion_tokens),
                         (SIMULATOR_KEY_OPENAI_TOTAL_TOKENS, VInt total_tokens)] w3
             in (Inr (Some (Response 200 response_body
                              [(''Content-Type'', ''application/json'')])), w4)))))))))))"

subsection \<open>Reading a response\<close>

text \<open>
  \<^verbatim>\<open>body["choices"][0]["finish_reason"]\<close> is the path
  \<open>[Key ''choices'', Index 0, Key ''finish_reason'']\<close>; \<open>None\<close> where Python would raise.
\<close>

datatype step = Key string | Index nat

fun jget :: "json \<Rightarrow> step \<Rightarrow> json option" where
  "jget (JObj kvs) (Key k) = map_of kvs k"
| "jget (JList xs) (Index i) = (if i < length xs then Some (xs ! i) else None)"
| "jget _ _ = None"

fun jpath :: "json \<Rightarrow> step list \<Rightarrow> json option" where
  "jpath j [] = Some j"
| "jpath j (s # p) = (case jget j s of None \<Rightarrow> None | Some v \<Rightarrow> jpath v p)"

fun dict_keys :: "json \<Rightarrow> string list option" where
  "dict_keys (JObj kvs) = Some (map fst kvs)"
| "dict_keys _ = None"

text \<open>What a handler returned: the body of a plain response, the emissions of a stream.\<close>

fun response_json :: "error + response option \<Rightarrow> json option" where
  "response_json (Inr (Some (Response code body headers))) = Some body"
| "response_json _ = None"

fun response_stream :: "error + response option \<Rightarrow> emission list option" where
  "response_stream (Inr (Some (StreamingResponse es))) = Some es"
| "response_stream _ = None"

definition body_at :: "(error + response option) \<times> world \<Rightarrow> step list \<Rightarrow> json option" where
  "body_at res p = (case response_json (fst res) of None \<Rightarrow> None | Some j \<Rightarrow> jpath j p)"

text \<open>The chunks among the emissions of a stream, in order.\<close>

fun data_chunks :: "emission list \<Rightarrow> json list" where
  "data_chunks [] = []"
| "data_chunks (Data j # es) = j # data_chunks es"
| "data_chunks (Raw s # es) = data_chunks es"

text \<open>Words as a stream shows them: the first as it is, every later one after a space.\<close>

fun space_prefixed :: "string list \<Rightarrow> string list" where
  "space_prefixed [] = []"
| "space_prefixed (word # rest) = word # map (\<lambda>v. '' '' @ v) rest"

subsection \<open>A small simulator to run the generators on\<close>

text \<open>
  Modelled from the spec: the route matcher (path templates with \<^verbatim>\<open>{name}\<close>
  placeholders, and the allowed methods), which the sources do not hold. A template
  matches a path segment by segment; a placeholder takes any non-empty segment.
\<close>

fun match_segments :: "string list \<Rightarrow> string list \<Rightarrow> (string \<times> string) list option" where
  "match_segments [] [] = Some []"
| "match_segments (t # ts) (s # ss) =
     (if t \<noteq> [] \<and> hd t = CHR ''{'' \<and> last t = CHR ''}''
      then (if s = [] then None
            else map_option (\<lambda>ps. (butlast (tl t), s) # ps) (match_segments ts ss))
      else if t = s then match_segments ts ss else None)"
| "match_segments _ _ = None"

definition sample_route_match ::
  "request \<Rightarrow> string \<Rightarrow> string list \<Rightarrow> bool \<times> (string \<rightharpoonup> string)" where
  "sample_route_match r path methods =
     (case match_segments (split_on (CHR ''/'') path) (split_on (CHR ''/'') (req_path r)) of
        None \<Rightarrow> (False, Map.empty)
      | Some ps \<Rightarrow> if req_method r \<in> set methods then (True, map_of ps) else (False, Map.empty))"

text \<open>
  Stand-ins for the other collaborators: a tokenizer that counts characters (and four
  tokens per message), a filler source that repeats one word, fixed ids and vector
  entries, and a clock that ticks at every reading.
\<close>

fun sample_words :: "nat \<Rightarrow> string list" where
  "sample_words 0 = []"
| "sample_words (Suc n) = ''lorem'' # sample_words n"

definition sample_externals :: externals where
  "sample_externals =
     \<lparr>is_route_match = sample_route_match,
      num_tokens_from_string =
        (\<lambda>v m. case v of JStr s \<Rightarrow> Inr (int (length s)) | _ \<Rightarrow> Inl TokenizerError),
      num_tokens_from_messages =
        (\<lambda>v m. case v of JList ms \<Rightarrow> Inr (3 + 4 * int (length ms)) | _ \<Rightarrow> Inl TokenizerError),
      get_word =
        (\<lambda>count. if count < 0 then Inl ValueError
                  else Inr (join_space (sample_words (nat count)))),
      nanoid = (\<lambda>k. ''V1StGXR8Z5jdHi6BmyTabcdefghij''),
      time_now = (\<lambda>k. 1700000000 + int k),
      random_random = (\<lambda>k. 1 / 2)\<rparr>"

definition sample_world :: world where
  "sample_world =
     \<lparr>missing_deployment_names = {}, warnings = [], ctx_values = Map.empty,
      body_reads = 0, word_requests = []\<rparr>"

definition sample_context :: "string \<Rightarrow> json \<Rightarrow> request_context" where
  "sample_context path body =
     \<lparr>ctx_request = \<lparr>req_method = ''POST'', req_path = path, req_json = Some body\<rparr>,
      openai_deployments = Some [(''gpt4'', \<lparr>model = ''gpt-4''\<rparr>)]\<rparr>"

section \<open>Properties\<close>

subsection \<open>Auxiliary facts\<close>

lemma join_empty_id: "join_empty s = s"
  by (induction s) (simp_all add: join_empty_def)

lemma embedding_no_match:
  "\<not> fst (is_route_match ext (ctx_request c) ''/openai/deployments/{deployment}/embeddings'' [''POST'']) \<Longrightarrow>
     azure_openai_embedding ext c w = (Inr None, w)"
  by (cases "is_route_match ext (ctx_request c) ''/openai/deployments/{deployment}/embeddings'' [''POST'']")
     (simp add: azure_openai_embedding_def)

lemma completion_no_match:
  "\<not> fst (is_route_match ext (ctx_request c) ''/openai/deployments/{deployment}/completions'' [''POST'']) \<Longrightarrow>
     azure_openai_completion ext c w = (Inr None, w)"
  by (cases "is_route_match ext (ctx_request c) ''/openai/deployments/{deployment}/completions'' [''POST'']")
     (simp add: azure_openai_completion_def)

lemma chat_no_match:
  "\<not> fst (is_route_match ext (ctx_request c) ''/openai/deployments/{deployment}/chat/completions'' [''POST'']) \<Longrightarrow>
     azure_openai_chat_completion ext c w = (Inr None, w)"
  by (cases "is_route_match ext (ctx_request c) ''/openai/deployments/{deployment}/chat/completions'' [''POST'']")
     (simp add: azure_openai_chat_completion_def)

lemma embedding_loop_strings:
  assumes "\<forall>x\<in>set xs. num_tokens_from_string ext (JStr x) m = Inr (cnt x)"
  shows "\<exists>new. embedding_loop ext m (map JStr xs) t embs idx =
            Inr (t + sum_list (map cnt xs), embs @ new) \<and>
          map (\<lambda>e. jpath e [Key ''index'']) new =
            map (\<lambda>i. Some (JInt (idx + int i))) [0..<length xs]"
  using assms
proof (induction xs arbitrary: t embs idx)
  case Nil
  then show ?case by simp
next
  case (Cons x xs)
  let ?g = "generate_embedding ext (length embs * default_embedding_size) idx default_embedding_size"
  from Cons.prems have tail: "\<forall>y\<in>set xs. num_tokens_from_string ext (JStr y) m = Inr (cnt y)"
    and head: "num_tokens_from_string ext (JStr x) m = Inr (cnt x)"
    by simp_all
  from Cons.IH [OF tail, of "t + cnt x" "embs @ [?g]" "idx + 1"]
  obtain new where
    run: "embedding_loop ext m (map JStr xs) (t + cnt x) (embs @ [?g]) (idx + 1) =
            Inr (t + cnt x + sum_list (map cnt xs), (embs @ [?g]) @ new)"
    and ixs: "map (\<lambda>e. jpath e [Key ''index'']) new =
            map (\<lambda>i. Some (JInt (idx + 1 + int i))) [0..<length xs]"
    by blast
  have g: "jpath ?g [Key ''index''] = Some (JInt idx)"
    by (simp add: generate_embedding_def)
  have "embedding_loop ext m (map JStr (x # xs)) t embs idx =
          Inr (t + sum_list (map cnt (x # xs)), embs @ (?g # new))"
    using head run by (simp add: add.assoc)
  moreover have "map (\<lambda>e. jpath e [Key ''index'']) (?g # new) =
          map (\<lambda>i. Some (JInt (idx + int i))) [0..<length (x # xs)]"
    using g ixs by (simp add: map_upt_Suc add.assoc del: upt_Suc jpath.simps)
  ultimately show ?case by blast
qed

lemma embedding_result:
  assumes "is_route_match ext (ctx_request c) ''/openai/deployments/{deployment}/embeddings'' [''POST''] = (True, pp)"
    and "pp ''deployment'' = Some d"
    and "req_json (ctx_request c) = Some body"
    and "get_model_name_from_deployment_name c d (w\<lparr>body_reads := Suc (body_reads w)\<rparr>) = (m, w2)"
    and "subscript body ''input'' = Inr inp"
    and "embed_input ext m inp = Inr (tokens, embeddings)"
  shows "azure_openai_embedding ext c w =
     (Inr (Some (Response 200
        (JObj [(''object'', JStr ''list''),
               (''data'', JList embeddings),
               (''model'', JStr ''ada''),
               (''usage'', JObj [(''prompt_tokens'', JInt tokens), (''total_tokens'', JInt tokens)])])
        [(''Content-Type'', ''application/json'')])),
      publish [(SIMULATOR_KEY_LIMITER, VStr ''openai''),
               (SIMULATOR_KEY_OPERATION_NAME, VStr ''embeddings''),
               (SIMULATOR_KEY_DEPLOYMENT_NAME, VStr d),
               (SIMULATOR_KEY_OPENAI_TOTAL_TOKENS, VInt tokens)] w2)"
  using assms
  by (simp add: azure_openai_embedding_def attempt_def path_param_def request_json_def del: publish.simps)

lemma completion_result:
  assumes "is_route_match ext (ctx_request c) ''/openai/deployments/{deployment}/completions'' [''POST''] = (True, pp)"
    and "pp ''deployment'' = Some d"
    and "get_model_name_from_deployment_name c d w = (m, w1)"
    and "req_json (ctx_request c) = Some body"
    and "subscript body ''prompt'' = Inr prompt"
    and "num_tokens_from_string ext prompt m = Inr pt"
    and "dict_get body ''max_tokens'' (JInt 4096) = Inr mt"
    and "words_to_generate mt = Inr n"
    and "get_word ext n = Inr g"
    and "num_tokens_from_string ext (JStr g) m = Inr ct"
  shows "azure_openai_completion ext c w =
     (Inr (Some (Response 200
        (JObj [(''id'', JStr (''cmpl-'' @ nanoid ext 0)),
               (''object'', JStr ''text_completion''),
               (''created'', JInt (time_now ext 0)),
               (''model'', JStr m),
               (''choices'',
                  JList [JObj [(''text'', JStr g),
                               (''index'', JInt 0),
                               (''finish_reason'', JStr ''length''),
                               (''logprobs'', JNull)]]),
               (''usage'',
                  JObj [(''prompt_tokens'', JInt pt),
                        (''completion_tokens'', JInt ct),
                        (''total_tokens'', JInt (pt + ct))])])
        [(''Content-Type'', ''application/json'')])),
      publish [(SIMULATOR_KEY_LIMITER, VStr ''openai''),
               (SIMULATOR_KEY_OPERATION_NAME, VStr ''completions''),
               (SIMULATOR_KEY_DEPLOYMENT_NAME, VStr d),
               (SIMULATOR_KEY_OPENAI_COMPLETION_TOKENS, VInt ct),
               (SIMULATOR_KEY_OPENAI_TOTAL_TOKENS, VInt (pt + ct))]
        (w1\<lparr>body_reads := Suc (body_reads w1), word_requests := word_requests w1 @ [n]\<rparr>))"
  using assms
  by (simp add: azure_openai_completion_def attempt_def path_param_def request_json_def
      join_empty_id Let_def del: publish.simps)

lemma chat_reaches_stream_test:
  assumes "is_route_match ext (ctx_request c) ''/openai/deployments/{deployment}/chat/completions'' [''POST''] = (True, pp)"
    and "req_json (ctx_request c) = Some body"
    and "pp ''deployment'' = Some d"
    and "get_model_name_from_deployment_name c d (w\<lparr>body_reads := Suc (body_reads w)\<rparr>) = (m, w2)"
    and "subscript body ''messages'' = Inr messages"
    and "num_tokens_from_messages ext messages m = Inr pt"
    and "dict_get body ''max_tokens'' (JInt 4096) = Inr mt"
    and "words_to_generate mt = Inr n"
    and "get_word ext n = Inr g"
    and "dict_get body ''stream'' (JBool False) = Inr stream"
  shows "azure_openai_chat_completion ext c w =
    (if truthy stream
     then (Inr (Some (StreamingResponse (send_words ext m g))),
           w2\<lparr>word_requests := word_requests w2 @ [n]\<rparr>)
     else attempt (w2\<lparr>word_requests := word_requests w2 @ [n]\<rparr>)
            (num_tokens_from_string ext (JStr g) m) (\<lambda>ct.
      (Inr (Some (Response 200
        (JObj [(''id'', JStr (''chatcmpl-'' @ nanoid ext 0)),
               (''object'', JStr ''chat.completion''),
               (''created'', JInt (time_now ext 0)),
               (''model'', JStr m),
               (''prompt_filter_results'',
                  JList [JObj [(''prompt_index'', JInt 0),
                               (''content_filter_results'', content_filter_results)]]),
               (''choices'',
                  JList [JObj [(''finish_reason'', JStr ''length''),
                               (''index'', JInt 0),
                               (''message'',
                                  JObj [(''role'', JStr ''assistant''), (''content'', JStr g)]),
                               (''content_filter_results'', content_filter_results)]]),
               (''usage'',
                  JObj [(''prompt_tokens'', JInt pt),
                        (''completion_tokens'', JInt ct),
                        (''total_tokens'', JInt (pt + ct))])])
        [(''Content-Type'', ''application/json'')])),
      publish [(SIMULATOR_KEY_LIMITER, VStr ''openai''),
               (SIMULATOR_KEY_OPERATION_NAME, VStr ''chat-completions''),
               (SIMULATOR_KEY_DEPLOYMENT_NAME, VStr d),
               (SIMULATOR_KEY_OPENAI_COMPLETION_TOKENS, VInt ct),
               (SIMULATOR_KEY_OPENAI_TOTAL_TOKENS, VInt (pt + ct))]
        (w2\<lparr>word_requests := word_requests w2 @ [n]\<rparr>))))"
  using assms
  by (simp add: azure_openai_chat_completion_def attempt_def path_param_def request_json_def
      join_empty_id Let_def del: publish.simps)

lemma send_words_loop_chunks:
  "map (\<lambda>j. jpath j [Key ''choices'', Index 0, Key ''delta'', Key ''content''])
       (data_chunks (send_words_loop ext m ws sp k)) =
   (case ws of [] \<Rightarrow> [] | word # rest \<Rightarrow> Some (JStr (sp @ word)) # map (\<lambda>v. Some (JStr ('' '' @ v))) rest)"
proof (induction ws arbitrary: sp k)
  case Nil
  then show ?case by simp
next
  case (Cons word rest)
  have "jpath (chunk ext m k sp word) [Key ''choices'', Index 0, Key ''delta'', Key ''content'']
          = Some (JStr (sp @ word))"
    by (simp add: chunk_def)
  then show ?case
    using Cons.IH [of "'' ''" "Suc k"]
    by (cases rest) (simp_all del: jpath.simps)
qed

lemma send_words_loop_length:
  "length (data_chunks (send_words_loop ext m ws sp k)) = length ws"
  by (induction ws arbitrary: sp k) simp_all

lemma send_words_loop_sentinel:
  "\<exists>front. send_words_loop ext m ws sp k = front @ [Raw ''[DONE]''] \<and>
           Raw ''[DONE]'' \<notin> set front \<and>
           data_chunks front = data_chunks (send_words_loop ext m ws sp k)"
proof (induction ws arbitrary: sp k)
  case Nil
  then show ?case by simp
next
  case (Cons word rest)
  from Cons.IH [of "'' ''" "Suc k"] obtain front where
    f: "send_words_loop ext m rest '' '' (Suc k) = front @ [Raw ''[DONE]'']"
       "Raw ''[DONE]'' \<notin> set front"
       "data_chunks front = data_chunks (send_words_loop ext m rest '' '' (Suc k))"
    by blast
  let ?front = "Data (chunk ext m k sp word) # Raw [CHR 0x0A] # front"
  have "send_words_loop ext m (word # rest) sp k = ?front @ [Raw ''[DONE]'']"
    using f(1) by simp
  moreover have "Raw ''[DONE]'' \<notin> set ?front"
    using f(2) by simp
  moreover have "data_chunks ?front = data_chunks (send_words_loop ext m (word # rest) sp k)"
    using f(3) by simp
  ultimately show ?case by blast
qed


lemma split_acc_no_sep: "sep \<notin> set v \<Longrightarrow> split_acc sep cur v = [rev cur @ v]"
  by (induction v arbitrary: cur) auto

lemma split_acc_word_sep:
  "sep \<notin> set v \<Longrightarrow> split_acc sep cur (v @ sep # s) = (rev cur @ v) # split_acc sep [] s"
  by (induction v arbitrary: cur) auto

lemma split_on_join_space:
  "ws \<noteq> [] \<Longrightarrow> \<forall>v\<in>set ws. CHR '' '' \<notin> set v \<Longrightarrow> split_on (CHR '' '') (join_space ws) = ws"
proof (induction ws rule: join_space.induct)
  case 1
  then show ?case by simp
next
  case (2 word)
  then show ?case by (simp add: split_on_def split_acc_no_sep)
next
  case (3 word v rest)
  then have "split_on (CHR '' '') (join_space (v # rest)) = v # rest" by simp
  moreover have "CHR '' '' \<notin> set word" using 3 by simp
  ultimately show ?case
    using split_acc_word_sep [of "CHR '' ''" word "[]" "join_space (v # rest)"]
    by (simp add: split_on_def)
qed

subsection \<open>Facts about double precision arithmetic\<close>

lemma binade_bounds:
  assumes "1 \<le> \<bar>x\<bar>"
  shows "0 \<le> binade x" and "pow2 (binade x) \<le> \<bar>x\<bar>" and "\<bar>x\<bar> < pow2 (binade x + 1)"
proof -
  let ?a = "\<lfloor>\<bar>x\<bar>\<rfloor>"
  have pos: "0 < ?a" using assms by simp
  from bitlen_bounds [OF pos] have lo: "2 ^ nat (bitlen ?a - 1) \<le> ?a" and hi: "?a < 2 ^ nat (bitlen ?a)"
    by simp_all
  have b1: "1 \<le> bitlen ?a"
    using pos bitlen_eq_zero_iff [of ?a] bitlen_nonneg [of ?a] by linarith
  have e: "binade x = bitlen ?a - 1"
    using assms by (simp add: binade_def)
  show "0 \<le> binade x" using e b1 by simp
  have "real_of_int (2 ^ nat (bitlen ?a - 1)) \<le> real_of_int ?a"
    using lo by linarith
  also have "\<dots> \<le> \<bar>x\<bar>" by simp
  finally show "pow2 (binade x) \<le> \<bar>x\<bar>"
    using e b1 by (simp add: pow2_def)
  have "?a + 1 \<le> 2 ^ nat (bitlen ?a)" using hi by simp
  then have "real_of_int (?a + 1) \<le> real_of_int (2 ^ nat (bitlen ?a))"
    by linarith
  moreover have "\<bar>x\<bar> < real_of_int (?a + 1)" by linarith
  ultimately have "\<bar>x\<bar> < real_of_int (2 ^ nat (bitlen ?a))" by linarith
  then have "\<bar>x\<bar> < 2 ^ nat (bitlen ?a)" by simp
  moreover have "nat (bitlen ?a - 1 + 1) = nat (bitlen ?a)" by simp
  ultimately show "\<bar>x\<bar> < pow2 (binade x + 1)"
    using e b1 by (simp add: pow2_def)
qed

lemma round_half_even_below:
  "y < real_of_int m - 1 / 2 \<Longrightarrow> round_half_even y \<le> m - 1"
  unfolding round_half_even_def Let_def
  by (auto; linarith)

lemma round_half_even_above:
  "real_of_int m - 1 / 2 < y \<Longrightarrow> m \<le> round_half_even y"
  unfolding round_half_even_def Let_def
  by (auto; linarith)

lemma round_half_even_int: "round_half_even (real_of_int m) = m"
  by (simp add: round_half_even_def)

lemma round_double_grid:
  assumes "x \<noteq> 0" and "ulp x = 1 / 2 ^ j"
  shows "x < real_of_int T - ulp x / 2 \<Longrightarrow> round_double x \<le> real_of_int T - ulp x"
    and "real_of_int T - ulp x / 2 < x \<Longrightarrow> real_of_int T \<le> round_double x"
proof -
  let ?m = "T * 2 ^ j"
  have rd: "round_double x = real_of_int (round_half_even (x * 2 ^ j)) / 2 ^ j"
    using assms by (simp add: round_double_def)
  have m: "real_of_int ?m = real_of_int T * 2 ^ j" by simp
  {
    assume "x < real_of_int T - ulp x / 2"
    then have "x * 2 ^ j < (real_of_int T - (1 / 2 ^ j) / 2) * 2 ^ j"
      using assms(2) by (simp add: mult_strict_right_mono)
    then have "x * 2 ^ j < real_of_int ?m - 1 / 2"
      by (simp add: algebra_simps)
    from round_half_even_below [OF this]
    have "real_of_int (round_half_even (x * 2 ^ j)) \<le> real_of_int T * 2 ^ j - 1"
      using m by (metis of_int_1 of_int_diff of_int_le_iff)
    then have "real_of_int (round_half_even (x * 2 ^ j)) / 2 ^ j \<le> (real_of_int T * 2 ^ j - 1) / 2 ^ j"
      by (simp add: divide_right_mono)
    then show "round_double x \<le> real_of_int T - ulp x"
      using rd assms(2) by (simp add: diff_divide_distrib)
  }
  {
    assume "real_of_int T - ulp x / 2 < x"
    then have "(real_of_int T - (1 / 2 ^ j) / 2) * 2 ^ j < x * 2 ^ j"
      using assms(2) by (simp add: mult_strict_right_mono)
    then have "real_of_int ?m - 1 / 2 < x * 2 ^ j"
      by (simp add: algebra_simps)
    from round_half_even_above [OF this]
    have "real_of_int T * 2 ^ j \<le> real_of_int (round_half_even (x * 2 ^ j))"
      using m by (metis of_int_le_iff)
    then show "real_of_int T \<le> round_double x"
      using rd by (simp add: pos_le_divide_eq)
  }
qed

lemma round_double_exact:
  assumes "x \<noteq> 0" and "ulp x = 1 / 2 ^ j" and "x * 2 ^ j = real_of_int m"
  shows "round_double x = x"
proof -
  have "round_double x = real_of_int (round_half_even (x * 2 ^ j)) / 2 ^ j"
    using assms(1,2) by (simp add: round_double_def)
  also have "\<dots> = real_of_int m / 2 ^ j"
    by (simp add: assms(3) round_half_even_int)
  also have "\<dots> = x"
    using assms(3) [symmetric] by simp
  finally show ?thesis .
qed

lemma ulp_of_binade:
  assumes "0 \<le> binade x" and "binade x \<le> 52"
  shows "ulp x = 1 / 2 ^ nat (52 - binade x)"
    and "ulp x * 2 ^ 52 = pow2 (binade x)"
proof -
  have m: "max (binade x) (- 1022) = binade x" using assms by simp
  show u: "ulp x = 1 / 2 ^ nat (52 - binade x)"
    using assms by (simp add: ulp_def m pow2_def)
  define a :: real where "a = 2 ^ nat (binade x)"
  define b :: real where "b = 2 ^ nat (52 - binade x)"
  have b0: "b \<noteq> 0" by (simp add: b_def)
  have "a * b = 2 ^ (nat (binade x) + nat (52 - binade x))"
    by (simp add: a_def b_def power_add)
  also have "nat (binade x) + nat (52 - binade x) = 52"
    using assms by simp
  finally have ab: "a * b = 2 ^ 52" .
  have "ulp x * 2 ^ 52 = (1 / b) * (a * b)"
    using u ab by (simp add: b_def)
  also have "\<dots> = a" using b0 by simp
  finally show "ulp x * 2 ^ 52 = pow2 (binade x)"
    using assms by (simp add: pow2_def a_def)
qed

lemma pow2_less_imp: "0 \<le> a \<Longrightarrow> 0 \<le> b \<Longrightarrow> pow2 a < pow2 (b + 1) \<Longrightarrow> a \<le> b"
  by (simp add: pow2_def)


lemma binade_half:
  assumes "1 / 2 \<le> \<bar>x\<bar>" and "\<bar>x\<bar> < 1"
  shows "binade x = - 1"
proof -
  have pos: "0 < \<bar>x\<bar>" using assms(1) by linarith
  have "1 < 1 / \<bar>x\<bar>" using assms(2) pos by (simp add: field_simps)
  moreover have "1 / \<bar>x\<bar> \<le> 2" using assms(1) pos by (simp add: field_simps)
  ultimately have "\<lceil>1 / \<bar>x\<bar>\<rceil> = 2"
    by (simp add: ceiling_eq_iff)
  then show ?thesis
    using assms(2) by (simp add: binade_def compute_bitlen)
qed

lemma ulp_half:
  assumes "1 / 2 \<le> \<bar>x\<bar>" and "\<bar>x\<bar> < 1"
  shows "ulp x = 1 / 2 ^ 53"
  by (simp add: ulp_def binade_half [OF assms] pow2_def)

lemma factor_value: "TOKEN_TO_WORD_FACTOR = 3242591731706757 / 4503599627370496"
proof -
  have u: "ulp (72 / 100) = 1 / 2 ^ 53"
    by (rule ulp_half) simp_all
  have f: "\<lfloor>(72 / 100 :: real) * 2 ^ 53\<rfloor> = 6485183463413514"
    by simp
  have "round_half_even ((72 / 100 :: real) * 2 ^ 53) = 6485183463413514"
    unfolding round_half_even_def Let_def f by simp
  then have "round_double (72 / 100) = 6485183463413514 / 2 ^ 53"
    unfolding round_double_def u by simp
  then show ?thesis
    by (simp add: TOKEN_TO_WORD_FACTOR_def)
qed

lemma round_double_factor:
  "round_double (3242591731706757 / 4503599627370496) = 3242591731706757 / 4503599627370496"
proof (rule round_double_exact [where j = 53 and m = 6485183463413514])
  show "(3242591731706757 / 4503599627370496 :: real) \<noteq> 0" by simp
  show "ulp (3242591731706757 / 4503599627370496) = 1 / 2 ^ 53"
    by (rule ulp_half) simp_all
  show "(3242591731706757 / 4503599627370496 :: real) * 2 ^ 53 = real_of_int 6485183463413514"
    by simp
qed

lemma round_double_int:
  assumes "\<bar>n\<bar> < 2 ^ 53"
  shows "round_double (real_of_int n) = real_of_int n"
proof (cases "n = 0")
  case True
  then show ?thesis by (simp add: round_double_def)
next
  case False
  let ?x = "real_of_int n"
  have one: "1 \<le> \<bar>?x\<bar>" using False by simp
  note b = binade_bounds [OF one]
  have "\<bar>?x\<bar> < pow2 (52 + 1)"
    using assms by (simp add: pow2_def)
  then have "pow2 (binade ?x) < pow2 (52 + 1)" using b(2) by linarith
  then have le: "binade ?x \<le> 52" using pow2_less_imp [OF b(1), of 52] by simp
  note u = ulp_of_binade(1) [OF b(1) le]
  show ?thesis
  proof (rule round_double_exact [OF _ u])
    show "?x \<noteq> 0" using False by simp
    show "?x * 2 ^ nat (52 - binade ?x) = real_of_int (n * 2 ^ nat (52 - binade ?x))"
      by simp
  qed
qed

lemma floor_range:
  assumes "0 \<le> n" and "n \<le> 2 ^ 49"
  shows "int_of_float (round_double (TOKEN_TO_WORD_FACTOR * round_double (real_of_int n))) =
           \<lfloor>(72 / 100 :: real) * real_of_int n\<rfloor>"
proof -
  let ?d = "3242591731706757 / 4503599627370496 :: real"
  have conv: "round_double (real_of_int n) = real_of_int n"
    using assms by (intro round_double_int) simp
  consider "n = 0" | "n = 1" | "2 \<le> n" using assms(1) by linarith
  then show ?thesis
  proof cases
    case 1
    then show ?thesis by (simp add: round_double_def int_of_float_def)
  next
    case 2
    have "TOKEN_TO_WORD_FACTOR * round_double (real_of_int n) = ?d"
      unfolding conv factor_value using 2 by simp
    then have r: "round_double (TOKEN_TO_WORD_FACTOR * round_double (real_of_int n)) = ?d"
      by (simp only: round_double_factor)
    have a: "int_of_float ?d = 0"
      by (simp add: int_of_float_def)
    have b: "\<lfloor>(72 / 100 :: real) * real_of_int n\<rfloor> = 0"
      using 2 by simp
    show ?thesis
      unfolding r a b ..
  next
    case 3
    define x where "x = ?d * real_of_int n"
    define t where "t = (72 / 100 :: real) * real_of_int n"
    define q where "q = \<lfloor>t\<rfloor>"
    have nr: "2 \<le> real_of_int n" "real_of_int n \<le> 2 ^ 49"
      using 3 assms(2) by simp_all
    have x_lo: "7 / 10 * real_of_int n \<le> x" and x_one: "1 \<le> \<bar>x\<bar>" and x_pos: "0 < x"
      using nr by (simp_all add: x_def)
    have x_hi: "\<bar>x\<bar> < pow2 49"
      using nr by (simp add: x_def pow2_def)
    have xt: "x = t - 6 * real_of_int n / (25 * 2 ^ 53)"
      by (simp add: x_def t_def)
    note b = binade_bounds [OF x_one]
    have "pow2 (binade x) < pow2 (48 + 1)" using b(2) x_hi by simp
    then have e48: "binade x \<le> 48" using pow2_less_imp [OF b(1), of 48] by simp
    then have e52: "binade x \<le> 52" by simp
    note u = ulp_of_binade [OF b(1) e52]
    have j4: "4 \<le> nat (52 - binade x)" using e48 by simp
    have "(2::real) ^ 4 \<le> 2 ^ nat (52 - binade x)"
      using j4 by (intro power_increasing) simp_all
    then have u16: "ulp x \<le> 1 / 16"
      unfolding u(1) by (simp add: field_simps)
    have u_pos: "0 < ulp x" unfolding u(1) by simp
    have "pow2 (binade x + 1) = 2 * pow2 (binade x)"
      using b(1) by (simp add: pow2_def nat_add_distrib)
    then have "x < 2 * (ulp x * 2 ^ 52)" using b(3) x_pos u(2) by simp
    then have u_big: "x < ulp x * 2 ^ 53" by simp
    have k: "t = real_of_int (18 * n) / real_of_int 25"
      by (simp add: t_def)
    have qdiv: "q = (18 * n) div 25"
      unfolding q_def k by (rule floor_divide_of_int_eq)
    have split: "18 * n = 25 * q + (18 * n) mod 25"
      unfolding qdiv by simp
    have r24: "(18 * n) mod 25 \<le> 24" and r0: "0 \<le> (18 * n) mod 25"
      by simp_all
    have t_eq: "t = real_of_int q + real_of_int ((18 * n) mod 25) / 25"
    proof -
      have "real_of_int (18 * n) = real_of_int (25 * q + (18 * n) mod 25)"
        using split by simp
      then show ?thesis unfolding k by (simp add: field_simps)
    qed
    have q_nonneg: "0 \<le> q"
      unfolding qdiv using assms(1) by (simp add: pos_imp_zdiv_nonneg_iff)
    have upper: "x < real_of_int (q + 1) - ulp x / 2"
    proof -
      have "x \<le> t" using nr unfolding xt by simp
      also have "t \<le> real_of_int q + 24 / 25"
        unfolding t_eq using r24 by simp
      also have "\<dots> < real_of_int (q + 1) - ulp x / 2"
        using u16 by simp
      finally show ?thesis .
    qed
    have lower: "real_of_int q - ulp x / 2 < x"
    proof (cases "(18 * n) mod 25 = 0")
      case True
      then have "t = real_of_int q" unfolding t_eq by simp
      moreover have "6 * real_of_int n / (25 * 2 ^ 53) < ulp x / 2"
      proof -
        have "6 * real_of_int n / (25 * 2 ^ 53) < (7 / 10 * real_of_int n) / 2 ^ 54"
          using nr by (simp add: field_simps)
        also have "\<dots> \<le> x / 2 ^ 54"
          using x_lo by (simp add: divide_right_mono)
        also have "\<dots> < (ulp x * 2 ^ 53) / 2 ^ 54"
          using u_big by (simp add: divide_strict_right_mono)
        also have "\<dots> = ulp x / 2" by simp
        finally show ?thesis .
      qed
      ultimately show ?thesis unfolding xt by simp
    next
      case False
      then have "1 \<le> (18 * n) mod 25" using r0 by linarith
      then have "real_of_int q + 1 / 25 \<le> t"
        unfolding t_eq by simp
      moreover have "6 * real_of_int n / (25 * 2 ^ 53) < 1 / 25"
        using nr by (simp add: field_simps)
      ultimately have "real_of_int q < x" unfolding xt by linarith
      then show ?thesis using u_pos by linarith
    qed
    have x0: "x \<noteq> 0" using x_pos by simp
    from round_double_grid(1) [OF x0 u(1) upper]
    have hi: "round_double x < real_of_int q + 1"
      using u_pos by simp
    from round_double_grid(2) [OF x0 u(1) lower]
    have lo: "real_of_int q \<le> round_double x" .
    have "\<lfloor>round_double x\<rfloor> = q"
      using lo hi by (simp add: floor_eq_iff)
    moreover have "0 \<le> round_double x" using lo q_nonneg by linarith
    ultimately have "int_of_float (round_double x) = q"
      by (simp add: int_of_float_def)
    then show ?thesis
      by (simp add: conv factor_value x_def q_def t_def)
  qed
qed



lemma float_of_int_small:
  assumes "\<bar>n\<bar> < 2 ^ 53"
  shows "float_of_int n = Inr (real_of_int n)"
proof -
  have "\<bar>real_of_int n\<bar> < 2 ^ 53"
    using assms by (metis of_int_abs of_int_less_numeral_power_cancel_iff)
  also have "(2::real) ^ 53 \<le> 2 ^ 1024"
    by (rule power_increasing) simp_all
  finally have "\<not> pow2 1024 \<le> \<bar>real_of_int n\<bar>"
    by (simp add: pow2_def)
  then show ?thesis
    by (simp add: float_of_int_def round_double_int [OF assms])
qed

lemma words_to_generate_product:
  assumes "\<bar>k\<bar> < 2 ^ 53"
  shows "words_to_generate (JInt k) =
     Inr (int_of_float (round_double (TOKEN_TO_WORD_FACTOR * round_double (real_of_int k))))"
  by (simp add: words_to_generate_def float_of_int_small [OF assms] round_double_int [OF assms])

lemma words_to_generate_range:
  assumes "0 \<le> k" and "k \<le> 2 ^ 49"
  shows "words_to_generate (JInt k) = Inr \<lfloor>(72 / 100 :: real) * real_of_int k\<rfloor>"
proof -
  have small: "\<bar>k\<bar> < 2 ^ 53" using assms by simp
  show ?thesis
    unfolding words_to_generate_product [OF small] floor_range [OF assms] ..
qed

lemma words_to_generate_three: "words_to_generate (JInt 3) = Inr 2"
  using words_to_generate_range [of 3] by simp



lemma publish_fields:
  "missing_deployment_names (publish kvs w) = missing_deployment_names w"
  "warnings (publish kvs w) = warnings w"
  "body_reads (publish kvs w) = body_reads w"
  "word_requests (publish kvs w) = word_requests w"
  by (induction kvs arbitrary: w) (simp_all add: set_value_def)

lemma resolver_missing:
  assumes "\<forall>ds. openai_deployments c = Some ds \<longrightarrow> map_of ds n = None"
  shows "get_model_name_from_deployment_name c n w =
     (default_model,
      if n \<in> missing_deployment_names w then w
      else w\<lparr>missing_deployment_names := insert n (missing_deployment_names w),
              warnings := warnings w @ [(n, default_model)]\<rparr>)"
  using assms by (auto simp add: get_model_name_from_deployment_name_def split: option.splits)

lemma resolver_found:
  assumes "openai_deployments c = Some ds" "map_of ds n = Some d"
  shows "get_model_name_from_deployment_name c n w = (model d, w)"
  using assms by (auto simp add: get_model_name_from_deployment_name_def split: option.splits)

subsection \<open>Requests for another route\<close>

text \<open>
  C8. A request that does not match a generator's route (path template and method
  \<^verbatim>\<open>POST\<close>) makes that generator return \<^verbatim>\<open>None\<close> and do nothing else: the world
  it leaves is the world it found, so the body was not read (\<open>body_reads\<close>), nothing
  was published (\<open>ctx_values\<close>) and \<open>missing_deployment_names\<close> is as before.
\<close>

theorem no_route_match_no_work:
  "(\<not> fst (is_route_match ext (ctx_request c) ''/openai/deployments/{deployment}/embeddings'' [''POST''])
      \<longrightarrow> azure_openai_embedding ext c w = (Inr None, w)) \<and>
   (\<not> fst (is_route_match ext (ctx_request c) ''/openai/deployments/{deployment}/completions'' [''POST''])
      \<longrightarrow> azure_openai_completion ext c w = (Inr None, w)) \<and>
   (\<not> fst (is_route_match ext (ctx_request c) ''/openai/deployments/{deployment}/chat/completions'' [''POST''])
      \<longrightarrow> azure_openai_chat_completion ext c w = (Inr None, w))"
  by (simp add: embedding_no_match completion_no_match chat_no_match)

theorem no_route_match_no_work_witness:
  "azure_openai_embedding sample_externals
     (sample_context ''/openai/deployments/dep-x/images'' JNull) sample_world = (Inr None, sample_world) \<and>
   azure_openai_completion sample_externals
     (sample_context ''/openai/deployments/dep-x/images'' JNull) sample_world = (Inr None, sample_world) \<and>
   azure_openai_chat_completion sample_externals
     (sample_context ''/openai/deployments/dep-x/images'' JNull) sample_world = (Inr None, sample_world)"
  using no_route_match_no_work [of sample_externals
      "sample_context ''/openai/deployments/dep-x/images'' JNull" sample_world]
  by (simp add: sample_externals_def sample_context_def sample_route_match_def split_on_def)

subsection \<open>The deployment resolver\<close>

text \<open>
  C2. For a deployment name the registry does not hold (the registry absent, empty, or
  without the name), the resolver returns \<^verbatim>\<open>gpt-3.5-turbo-0613\<close>, whatever the world;
  it is a total function, so it never fails. A name seen for the first time is added
  to \<open>missing_deployment_names\<close> and one warning is logged; a name already there
  changes nothing, so a second call with the same name logs nothing more. A registered
  name returns its model and leaves the world, \<open>missing_deployment_names\<close> included,
  as it was.
\<close>

theorem resolve_default_warn_once:
  "((\<forall>ds. openai_deployments c = Some ds \<longrightarrow> map_of ds n = None) \<longrightarrow>
      fst (get_model_name_from_deployment_name c n w) = ''gpt-3.5-turbo-0613'' \<and>
      (n \<notin> missing_deployment_names w \<longrightarrow>
         snd (get_model_name_from_deployment_name c n w) =
           w\<lparr>missing_deployment_names := insert n (missing_deployment_names w),
             warnings := warnings w @ [(n, ''gpt-3.5-turbo-0613'')]\<rparr>) \<and>
      (n \<in> missing_deployment_names w \<longrightarrow> snd (get_model_name_from_deployment_name c n w) = w) \<and>
      get_model_name_from_deployment_name c n (snd (get_model_name_from_deployment_name c n w)) =
        (''gpt-3.5-turbo-0613'', snd (get_model_name_from_deployment_name c n w))) \<and>
   (\<forall>ds d. openai_deployments c = Some ds \<and> map_of ds n = Some d \<longrightarrow>
      get_model_name_from_deployment_name c n w = (model d, w))"
proof (intro conjI impI allI)
  fix ds d
  assume "openai_deployments c = Some ds \<and> map_of ds n = Some d"
  then show "get_model_name_from_deployment_name c n w = (model d, w)"
    by (simp add: resolver_found)
next
  assume absent: "\<forall>ds. openai_deployments c = Some ds \<longrightarrow> map_of ds n = None"
  note first = resolver_missing [OF absent]
  show "fst (get_model_name_from_deployment_name c n w) = ''gpt-3.5-turbo-0613''"
    by (simp add: first default_model_def)
  show "get_model_name_from_deployment_name c n (snd (get_model_name_from_deployment_name c n w)) =
        (''gpt-3.5-turbo-0613'', snd (get_model_name_from_deployment_name c n w))"
    by (simp add: first default_model_def)
  {
    assume "n \<notin> missing_deployment_names w"
    then show "snd (get_model_name_from_deployment_name c n w) =
           w\<lparr>missing_deployment_names := insert n (missing_deployment_names w),
             warnings := warnings w @ [(n, ''gpt-3.5-turbo-0613'')]\<rparr>"
      by (simp add: first default_model_def)
  }
  {
    assume "n \<in> missing_deployment_names w"
    then show "snd (get_model_name_from_deployment_name c n w) = w"
      by (simp add: first)
  }
qed

theorem resolve_default_warn_once_witness:
  "fst (get_model_name_from_deployment_name (sample_context ''/'' JNull) ''dep-x'' sample_world) =
     ''gpt-3.5-turbo-0613'' \<and>
   snd (get_model_name_from_deployment_name (sample_context ''/'' JNull) ''dep-x'' sample_world) =
     sample_world\<lparr>missing_deployment_names := {''dep-x''},
                    warnings := [(''dep-x'', ''gpt-3.5-turbo-0613'')]\<rparr> \<and>
   get_model_name_from_deployment_name (sample_context ''/'' JNull) ''dep-x''
     (snd (get_model_name_from_deployment_name (sample_context ''/'' JNull) ''dep-x'' sample_world)) =
     (''gpt-3.5-turbo-0613'',
      snd (get_model_name_from_deployment_name (sample_context ''/'' JNull) ''dep-x'' sample_world)) \<and>
   get_model_name_from_deployment_name (sample_context ''/'' JNull) ''gpt4'' sample_world =
     (''gpt-4'', sample_world)"
proof -
  let ?c = "sample_context ''/'' JNull"
  have absent: "\<forall>ds. openai_deployments ?c = Some ds \<longrightarrow> map_of ds ''dep-x'' = None"
    by (simp add: sample_context_def)
  have fresh: "''dep-x'' \<notin> missing_deployment_names sample_world"
    and none: "missing_deployment_names sample_world = {}" "warnings sample_world = []"
    by (simp_all add: sample_world_def)
  have found: "openai_deployments ?c = Some [(''gpt4'', \<lparr>model = ''gpt-4''\<rparr>)] \<and>
      map_of [(''gpt4'', \<lparr>model = ''gpt-4''\<rparr>)] ''gpt4'' = Some \<lparr>model = ''gpt-4''\<rparr>"
    by (simp add: sample_context_def)
  from resolve_default_warn_once [of ?c "''dep-x''" sample_world] absent fresh none
    resolve_default_warn_once [of ?c "''gpt4''" sample_world] found
  show ?thesis by auto
qed

subsection \<open>Embeddings\<close>

text \<open>
  C3. An embeddings request whose \<^verbatim>\<open>input\<close> is a list of \<open>N\<close> strings, each of which
  the tokenizer counts, is answered with a body whose \<^verbatim>\<open>data\<close> has exactly \<open>N\<close>
  elements, their \<^verbatim>\<open>index\<close> fields \<open>0, \<dots>, N - 1\<close> in order, and whose \<^verbatim>\<open>usage\<close> holds
  \<^verbatim>\<open>prompt_tokens\<close>, the sum of the counts of the items under the resolved model, and
  an equal \<^verbatim>\<open>total_tokens\<close>, and nothing else.
\<close>

theorem embeddings_list_response:
  assumes "fst (is_route_match ext (ctx_request c)
                  ''/openai/deployments/{deployment}/embeddings'' [''POST''])"
    and "snd (is_route_match ext (ctx_request c)
                ''/openai/deployments/{deployment}/embeddings'' [''POST'']) ''deployment'' = Some d"
    and "req_json (ctx_request c) = Some body"
    and "subscript body ''input'' = Inr (JList (map JStr xs))"
    and "\<forall>x\<in>set xs.
           num_tokens_from_string ext (JStr x)
             (fst (get_model_name_from_deployment_name c d
                     (w\<lparr>body_reads := Suc (body_reads w)\<rparr>))) = Inr (cnt x)"
  shows "(\<exists>data. body_at (azure_openai_embedding ext c w) [Key ''data''] = Some (JList data) \<and>
            length data = length xs \<and>
            map (\<lambda>e. jpath e [Key ''index'']) data =
              map (\<lambda>i. Some (JInt (int i))) [0..<length xs]) \<and>
         body_at (azure_openai_embedding ext c w) [Key ''usage''] =
           Some (JObj [(''prompt_tokens'', JInt (sum_list (map cnt xs))),
                       (''total_tokens'', JInt (sum_list (map cnt xs)))])"
proof -
  let ?w1 = "w\<lparr>body_reads := Suc (body_reads w)\<rparr>"
  obtain m w2 where res: "get_model_name_from_deployment_name c d ?w1 = (m, w2)"
    by (cases "get_model_name_from_deployment_name c d ?w1")
  obtain pp where mt: "is_route_match ext (ctx_request c)
      ''/openai/deployments/{deployment}/embeddings'' [''POST''] = (True, pp)"
    and pp: "pp ''deployment'' = Some d"
    using assms(1,2)
    by (cases "is_route_match ext (ctx_request c)
          ''/openai/deployments/{deployment}/embeddings'' [''POST'']") simp
  from assms(5) res have counts: "\<forall>x\<in>set xs. num_tokens_from_string ext (JStr x) m = Inr (cnt x)"
    by simp
  from embedding_loop_strings [OF counts, of 0 "[]" 0] obtain data where
    run: "embedding_loop ext m (map JStr xs) 0 [] 0 = Inr (sum_list (map cnt xs), data)"
    and ixs: "map (\<lambda>e. jpath e [Key ''index'']) data =
                map (\<lambda>i. Some (JInt (int i))) [0..<length xs]"
    by auto
  have emb: "embed_input ext m (JList (map JStr xs)) = Inr (sum_list (map cnt xs), data)"
    using run by (simp add: embed_input_def)
  have len: "length data = length xs"
    using ixs by (metis length_map length_upt minus_nat.diff_0)
  note out = embedding_result [OF mt pp assms(3) res assms(4) emb]
  have "body_at (azure_openai_embedding ext c w) [Key ''data''] = Some (JList data)"
    by (simp add: out body_at_def)
  moreover have "body_at (azure_openai_embedding ext c w) [Key ''usage''] =
           Some (JObj [(''prompt_tokens'', JInt (sum_list (map cnt xs))),
                       (''total_tokens'', JInt (sum_list (map cnt xs)))])"
    by (simp add: out body_at_def)
  ultimately show ?thesis using len ixs by blast
qed

theorem embeddings_list_response_witness:
  "(\<exists>data. body_at (azure_openai_embedding sample_externals
               (sample_context ''/openai/deployments/dep-x/embeddings''
                  (JObj [(''input'', JList [JStr ''a'', JStr ''bc''])])) sample_world)
             [Key ''data''] = Some (JList data) \<and>
           length data = 2 \<and>
           map (\<lambda>e. jpath e [Key ''index'']) data = [Some (JInt 0), Some (JInt 1)]) \<and>
   body_at (azure_openai_embedding sample_externals
               (sample_context ''/openai/deployments/dep-x/embeddings''
                  (JObj [(''input'', JList [JStr ''a'', JStr ''bc''])])) sample_world)
      [Key ''usage''] =
     Some (JObj [(''prompt_tokens'', JInt 3), (''total_tokens'', JInt 3)])"
  using embeddings_list_response [of sample_externals
      "sample_context ''/openai/deployments/dep-x/embeddings''
         (JObj [(''input'', JList [JStr ''a'', JStr ''bc''])])"
      "''dep-x''" "JObj [(''input'', JList [JStr ''a'', JStr ''bc''])]" "[''a'', ''bc'']"
      sample_world "\<lambda>x. int (length x)"]
  by (simp add: sample_externals_def sample_context_def sample_route_match_def split_on_def
      numeral_2_eq_2 del: jpath.simps)

text \<open>
  C9. The body of every embeddings response names the model \<^verbatim>\<open>ada\<close>, whatever the
  deployment resolves to. The resolver runs all the same, once the body has been
  read: for a deployment name the registry does not hold and that was not seen before,
  the name is in \<open>missing_deployment_names\<close> afterwards and one warning was logged,
  whether or not the rest of the request succeeds; for a name seen before nothing
  more is logged.
\<close>

theorem embeddings_model_is_ada:
  assumes "fst (is_route_match ext (ctx_request c)
                  ''/openai/deployments/{deployment}/embeddings'' [''POST''])"
    and "snd (is_route_match ext (ctx_request c)
                ''/openai/deployments/{deployment}/embeddings'' [''POST'']) ''deployment'' = Some d"
    and "req_json (ctx_request c) = Some body"
  shows "(response_json (fst (azure_openai_embedding ext c w)) \<noteq> None \<longrightarrow>
            body_at (azure_openai_embedding ext c w) [Key ''model''] = Some (JStr ''ada'')) \<and>
         ((\<forall>ds. openai_deployments c = Some ds \<longrightarrow> map_of ds d = None) \<longrightarrow>
            missing_deployment_names (snd (azure_openai_embedding ext c w)) =
              insert d (missing_deployment_names w) \<and>
            warnings (snd (azure_openai_embedding ext c w)) =
              (if d \<in> missing_deployment_names w then warnings w
               else warnings w @ [(d, ''gpt-3.5-turbo-0613'')]))"
proof -
  let ?w1 = "w\<lparr>body_reads := Suc (body_reads w)\<rparr>"
  obtain m w2 where res: "get_model_name_from_deployment_name c d ?w1 = (m, w2)"
    by (cases "get_model_name_from_deployment_name c d ?w1")
  obtain pp where mt: "is_route_match ext (ctx_request c)
      ''/openai/deployments/{deployment}/embeddings'' [''POST''] = (True, pp)"
    and pp: "pp ''deployment'' = Some d"
    using assms(1,2)
    by (cases "is_route_match ext (ctx_request c)
          ''/openai/deployments/{deployment}/embeddings'' [''POST'']") simp
  have unfold: "azure_openai_embedding ext c w =
      attempt w2 (subscript body ''input'') (\<lambda>request_input.
      attempt w2 (embed_input ext m request_input) (\<lambda>(tokens, embeddings).
        (Inr (Some (Response 200
           (JObj [(''object'', JStr ''list''),
                  (''data'', JList embeddings),
                  (''model'', JStr ''ada''),
                  (''usage'', JObj [(''prompt_tokens'', JInt tokens),
                                    (''total_tokens'', JInt tokens)])])
           [(''Content-Type'', ''application/json'')])),
         publish [(SIMULATOR_KEY_LIMITER, VStr ''openai''),
                  (SIMULATOR_KEY_OPERATION_NAME, VStr ''embeddings''),
                  (SIMULATOR_KEY_DEPLOYMENT_NAME, VStr d),
                  (SIMULATOR_KEY_OPENAI_TOTAL_TOKENS, VInt tokens)] w2)))"
    using mt pp assms(3) res
    by (simp add: azure_openai_embedding_def attempt_def path_param_def request_json_def
        del: publish.simps)
  have model: "response_json (fst (azure_openai_embedding ext c w)) \<noteq> None \<longrightarrow>
      body_at (azure_openai_embedding ext c w) [Key ''model''] = Some (JStr ''ada'')"
    by (simp add: unfold attempt_def body_at_def split: sum.splits prod.splits del: publish.simps)
  have world_after: "missing_deployment_names (snd (azure_openai_embedding ext c w)) =
        missing_deployment_names w2 \<and>
      warnings (snd (azure_openai_embedding ext c w)) = warnings w2"
    by (simp add: unfold attempt_def publish_fields split: sum.splits prod.splits
        del: publish.simps)
  {
    assume absent: "\<forall>ds. openai_deployments c = Some ds \<longrightarrow> map_of ds d = None"
    from resolver_missing [OF absent, of ?w1] res
    have "missing_deployment_names w2 = insert d (missing_deployment_names w) \<and>
          warnings w2 = (if d \<in> missing_deployment_names w then warnings w
                         else warnings w @ [(d, ''gpt-3.5-turbo-0613'')])"
      by (auto simp add: default_model_def)
  }
  with model world_after show ?thesis by simp
qed

theorem embeddings_model_is_ada_witness:
  "body_at (azure_openai_embedding sample_externals
              (sample_context ''/openai/deployments/dep-x/embeddings''
                 (JObj [(''input'', JStr ''hello'')])) sample_world) [Key ''model''] =
     Some (JStr ''ada'') \<and>
   missing_deployment_names (snd (azure_openai_embedding sample_externals
              (sample_context ''/openai/deployments/dep-x/embeddings''
                 (JObj [(''input'', JStr ''hello'')])) sample_world)) = {''dep-x''} \<and>
   warnings (snd (azure_openai_embedding sample_externals
              (sample_context ''/openai/deployments/dep-x/embeddings''
                 (JObj [(''input'', JStr ''hello'')])) sample_world)) =
     [(''dep-x'', ''gpt-3.5-turbo-0613'')]"
proof -
  let ?c = "sample_context ''/openai/deployments/dep-x/embeddings''
              (JObj [(''input'', JStr ''hello'')])"
  have route: "is_route_match sample_externals (ctx_request ?c)
      ''/openai/deployments/{deployment}/embeddings'' [''POST''] =
      (True, map_of [(''deployment'', ''dep-x'')])"
    by (simp add: sample_externals_def sample_context_def sample_route_match_def split_on_def)
  have body: "req_json (ctx_request ?c) = Some (JObj [(''input'', JStr ''hello'')])"
    by (simp add: sample_context_def)
  have absent: "\<forall>ds. openai_deployments ?c = Some ds \<longrightarrow> map_of ds ''dep-x'' = None"
    by (simp add: sample_context_def)
  have answered: "response_json (fst (azure_openai_embedding sample_externals ?c sample_world)) \<noteq> None"
    using route body
    by (simp add: azure_openai_embedding_def attempt_def path_param_def request_json_def
        embed_input_def sample_externals_def
        split: prod.splits del: publish.simps)
  have start: "missing_deployment_names sample_world = {}" "warnings sample_world = []"
    by (simp_all add: sample_world_def)
  from embeddings_model_is_ada [of sample_externals ?c "''dep-x''"
      "JObj [(''input'', JStr ''hello'')]" sample_world] route body absent answered start
  show ?thesis by simp
qed

subsection \<open>Text completion\<close>

text \<open>
  C5. A text completion request that is handled to its end (the body is a dictionary
  with a \<^verbatim>\<open>prompt\<close>, the tokenizer counts the prompt and the generated text, the filler
  source delivers) is answered with a body in which \<^verbatim>\<open>usage.total_tokens\<close> is
  \<^verbatim>\<open>usage.prompt_tokens + usage.completion_tokens\<close>, the one choice has
  \<^verbatim>\<open>finish_reason\<close> \<^verbatim>\<open>"length"\<close> and \<^verbatim>\<open>logprobs\<close> null, the id starts with \<^verbatim>\<open>cmpl-\<close>,
  the object is \<^verbatim>\<open>text_completion\<close> and the model is the resolved model name.
\<close>

theorem completion_response_shape:
  assumes "fst (is_route_match ext (ctx_request c)
                  ''/openai/deployments/{deployment}/completions'' [''POST''])"
    and "snd (is_route_match ext (ctx_request c)
                ''/openai/deployments/{deployment}/completions'' [''POST'']) ''deployment'' = Some d"
    and "req_json (ctx_request c) = Some body"
    and "subscript body ''prompt'' = Inr prompt"
    and "num_tokens_from_string ext prompt
           (fst (get_model_name_from_deployment_name c d w)) = Inr pt"
    and "dict_get body ''max_tokens'' (JInt 4096) = Inr max_tokens"
    and "words_to_generate max_tokens = Inr n"
    and "get_word ext n = Inr g"
    and "num_tokens_from_string ext (JStr g)
           (fst (get_model_name_from_deployment_name c d w)) = Inr ct"
  shows "body_at (azure_openai_completion ext c w) [Key ''usage'', Key ''prompt_tokens''] =
           Some (JInt pt) \<and>
         body_at (azure_openai_completion ext c w) [Key ''usage'', Key ''completion_tokens''] =
           Some (JInt ct) \<and>
         body_at (azure_openai_completion ext c w) [Key ''usage'', Key ''total_tokens''] =
           Some (JInt (pt + ct)) \<and>
         (\<exists>choice. body_at (azure_openai_completion ext c w) [Key ''choices''] =
            Some (JList [choice])) \<and>
         body_at (azure_openai_completion ext c w) [Key ''choices'', Index 0, Key ''finish_reason''] =
           Some (JStr ''length'') \<and>
         body_at (azure_openai_completion ext c w) [Key ''choices'', Index 0, Key ''logprobs''] =
           Some JNull \<and>
         (\<exists>suffix. body_at (azure_openai_completion ext c w) [Key ''id''] =
            Some (JStr (''cmpl-'' @ suffix))) \<and>
         body_at (azure_openai_completion ext c w) [Key ''object''] =
           Some (JStr ''text_completion'') \<and>
         body_at (azure_openai_completion ext c w) [Key ''model''] =
           Some (JStr (fst (get_model_name_from_deployment_name c d w)))"
proof -
  obtain m w1 where res: "get_model_name_from_deployment_name c d w = (m, w1)"
    by (cases "get_model_name_from_deployment_name c d w")
  obtain pp where mt: "is_route_match ext (ctx_request c)
      ''/openai/deployments/{deployment}/completions'' [''POST''] = (True, pp)"
    and pp: "pp ''deployment'' = Some d"
    using assms(1,2)
    by (cases "is_route_match ext (ctx_request c)
          ''/openai/deployments/{deployment}/completions'' [''POST'']") simp
  from assms(5,9) res have counts: "num_tokens_from_string ext prompt m = Inr pt"
      "num_tokens_from_string ext (JStr g) m = Inr ct"
    by simp_all
  note out = completion_result [OF mt pp res assms(3,4) counts(1) assms(6,7,8) counts(2)]
  show ?thesis
    by (simp add: out body_at_def res)
qed

theorem completion_response_shape_witness:
  "body_at (azure_openai_completion sample_externals
              (sample_context ''/openai/deployments/gpt4/completions''
                 (JObj [(''prompt'', JStr ''hi''), (''max_tokens'', JInt 3)])) sample_world)
     [Key ''usage'', Key ''total_tokens''] = Some (JInt (2 + 11)) \<and>
   body_at (azure_openai_completion sample_externals
              (sample_context ''/openai/deployments/gpt4/completions''
                 (JObj [(''prompt'', JStr ''hi''), (''max_tokens'', JInt 3)])) sample_world)
     [Key ''choices'', Index 0, Key ''finish_reason''] = Some (JStr ''length'') \<and>
   body_at (azure_openai_completion sample_externals
              (sample_context ''/openai/deployments/gpt4/completions''
                 (JObj [(''prompt'', JStr ''hi''), (''max_tokens'', JInt 3)])) sample_world)
     [Key ''model''] = Some (JStr ''gpt-4'')"
proof -
  let ?body = "JObj [(''prompt'', JStr ''hi''), (''max_tokens'', JInt 3)]"
  let ?c = "sample_context ''/openai/deployments/gpt4/completions'' ?body"
  have route: "is_route_match sample_externals (ctx_request ?c)
      ''/openai/deployments/{deployment}/completions'' [''POST''] =
      (True, map_of [(''deployment'', ''gpt4'')])"
    by (simp add: sample_externals_def sample_context_def sample_route_match_def split_on_def)
  have body: "req_json (ctx_request ?c) = Some ?body"
    by (simp add: sample_context_def)
  have model: "get_model_name_from_deployment_name ?c ''gpt4'' sample_world = (''gpt-4'', sample_world)"
    using resolver_found [of ?c "[(''gpt4'', \<lparr>model = ''gpt-4''\<rparr>)]" "''gpt4''"
        "\<lparr>model = ''gpt-4''\<rparr>" sample_world]
    by (simp add: sample_context_def)
  have words: "words_to_generate (JInt 3) = Inr 2"
    by (rule words_to_generate_three)
  have filler: "get_word sample_externals 2 = Inr ''lorem lorem''"
    by (simp add: sample_externals_def numeral_2_eq_2)
  have counts: "num_tokens_from_string sample_externals (JStr ''hi'') ''gpt-4'' = Inr 2"
      "num_tokens_from_string sample_externals (JStr ''lorem lorem'') ''gpt-4'' = Inr 11"
    by (simp_all add: sample_externals_def)
  from completion_response_shape [of sample_externals ?c "''gpt4''" ?body "JStr ''hi''"
      sample_world 2 "JInt 3" 2 "''lorem lorem''" 11]
    route body model words filler counts
  show ?thesis by simp
qed

subsection \<open>Chat completion\<close>

text \<open>
  C6. A chat completion request without \<^verbatim>\<open>stream\<close> (or with a falsy one) that is
  handled to its end is answered with a body that has one \<^verbatim>\<open>prompt_filter_results\<close>
  entry and one \<^verbatim>\<open>choices\<close> entry; the \<^verbatim>\<open>content_filter_results\<close> of each has exactly
  the keys \<^verbatim>\<open>hate\<close>, \<^verbatim>\<open>self_harm\<close>, \<^verbatim>\<open>sexual\<close> and \<^verbatim>\<open>violence\<close>, each with
  \<^verbatim>\<open>filtered\<close> false and \<^verbatim>\<open>severity\<close> \<^verbatim>\<open>"safe"\<close>; the choice's \<^verbatim>\<open>finish_reason\<close> is
  \<^verbatim>\<open>"length"\<close>, and \<^verbatim>\<open>usage.total_tokens\<close> is
  \<^verbatim>\<open>usage.prompt_tokens + usage.completion_tokens\<close>.
\<close>

theorem chat_response_shape:
  assumes "fst (is_route_match ext (ctx_request c)
                  ''/openai/deployments/{deployment}/chat/completions'' [''POST''])"
    and "snd (is_route_match ext (ctx_request c)
                ''/openai/deployments/{deployment}/chat/completions'' [''POST'']) ''deployment'' =
           Some d"
    and "req_json (ctx_request c) = Some body"
    and "subscript body ''messages'' = Inr messages"
    and "num_tokens_from_messages ext messages
           (fst (get_model_name_from_deployment_name c d
                   (w\<lparr>body_reads := Suc (body_reads w)\<rparr>))) = Inr pt"
    and "dict_get body ''max_tokens'' (JInt 4096) = Inr max_tokens"
    and "words_to_generate max_tokens = Inr n"
    and "get_word ext n = Inr g"
    and "dict_get body ''stream'' (JBool False) = Inr stream"
    and "\<not> truthy stream"
    and "num_tokens_from_string ext (JStr g)
           (fst (get_model_name_from_deployment_name c d
                   (w\<lparr>body_reads := Suc (body_reads w)\<rparr>))) = Inr ct"
  shows "(\<exists>entry. body_at (azure_openai_chat_completion ext c w) [Key ''prompt_filter_results''] =
            Some (JList [entry])) \<and>
         (\<exists>choice. body_at (azure_openai_chat_completion ext c w) [Key ''choices''] =
            Some (JList [choice])) \<and>
         (\<forall>block \<in> {[Key ''prompt_filter_results'', Index 0], [Key ''choices'', Index 0]}.
            \<exists>cats. body_at (azure_openai_chat_completion ext c w)
                      (block @ [Key ''content_filter_results'']) = Some cats \<and>
              dict_keys cats = Some [''hate'', ''self_harm'', ''sexual'', ''violence''] \<and>
              (\<forall>category \<in> {''hate'', ''self_harm'', ''sexual'', ''violence''}.
                 jpath cats [Key category, Key ''filtered''] = Some (JBool False) \<and>
                 jpath cats [Key category, Key ''severity''] = Some (JStr ''safe''))) \<and>
         body_at (azure_openai_chat_completion ext c w)
           [Key ''choices'', Index 0, Key ''finish_reason''] = Some (JStr ''length'') \<and>
         body_at (azure_openai_chat_completion ext c w) [Key ''usage'', Key ''prompt_tokens''] =
           Some (JInt pt) \<and>
         body_at (azure_openai_chat_completion ext c w) [Key ''usage'', Key ''completion_tokens''] =
           Some (JInt ct) \<and>
         body_at (azure_openai_chat_completion ext c w) [Key ''usage'', Key ''total_tokens''] =
           Some (JInt (pt + ct))"
proof -
  let ?w1 = "w\<lparr>body_reads := Suc (body_reads w)\<rparr>"
  obtain m w2 where res: "get_model_name_from_deployment_name c d ?w1 = (m, w2)"
    by (cases "get_model_name_from_deployment_name c d ?w1")
  obtain pp where mt: "is_route_match ext (ctx_request c)
      ''/openai/deployments/{deployment}/chat/completions'' [''POST''] = (True, pp)"
    and pp: "pp ''deployment'' = Some d"
    using assms(1,2)
    by (cases "is_route_match ext (ctx_request c)
          ''/openai/deployments/{deployment}/chat/completions'' [''POST'']") simp
  from assms(5,11) res have counts: "num_tokens_from_messages ext messages m = Inr pt"
      "num_tokens_from_string ext (JStr g) m = Inr ct"
    by simp_all
  note out = chat_reaches_stream_test [OF mt assms(3) pp res assms(4) counts(1) assms(6,7,8,9)]
  have cats: "dict_keys content_filter_results =
        Some [''hate'', ''self_harm'', ''sexual'', ''violence'']"
      "\<forall>category \<in> {''hate'', ''self_harm'', ''sexual'', ''violence''}.
         jpath content_filter_results [Key category, Key ''filtered''] = Some (JBool False) \<and>
         jpath content_filter_results [Key category, Key ''severity''] = Some (JStr ''safe'')"
    by (simp_all add: content_filter_results_def)
  have blocks: "body_at (azure_openai_chat_completion ext c w)
        [Key ''prompt_filter_results'', Index 0, Key ''content_filter_results''] =
          Some content_filter_results"
      "body_at (azure_openai_chat_completion ext c w)
        [Key ''choices'', Index 0, Key ''content_filter_results''] = Some content_filter_results"
    using assms(10) counts(2) by (simp_all add: out attempt_def body_at_def)
  have rest: "(\<exists>entry. body_at (azure_openai_chat_completion ext c w) [Key ''prompt_filter_results''] =
            Some (JList [entry])) \<and>
         (\<exists>choice. body_at (azure_openai_chat_completion ext c w) [Key ''choices''] =
            Some (JList [choice])) \<and>
         body_at (azure_openai_chat_completion ext c w)
           [Key ''choices'', Index 0, Key ''finish_reason''] = Some (JStr ''length'') \<and>
         body_at (azure_openai_chat_completion ext c w) [Key ''usage'', Key ''prompt_tokens''] =
           Some (JInt pt) \<and>
         body_at (azure_openai_chat_completion ext c w) [Key ''usage'', Key ''completion_tokens''] =
           Some (JInt ct) \<and>
         body_at (azure_openai_chat_completion ext c w) [Key ''usage'', Key ''total_tokens''] =
           Some (JInt (pt + ct))"
    using assms(10) counts(2) by (simp add: out attempt_def body_at_def)
  from blocks cats have "\<forall>block \<in> {[Key ''prompt_filter_results'', Index 0], [Key ''choices'', Index 0]}.
            \<exists>cats. body_at (azure_openai_chat_completion ext c w)
                      (block @ [Key ''content_filter_results'']) = Some cats \<and>
              dict_keys cats = Some [''hate'', ''self_harm'', ''sexual'', ''violence''] \<and>
              (\<forall>category \<in> {''hate'', ''self_harm'', ''sexual'', ''violence''}.
                 jpath cats [Key category, Key ''filtered''] = Some (JBool False) \<and>
                 jpath cats [Key category, Key ''severity''] = Some (JStr ''safe''))"
    by simp
  with rest show ?thesis by blast
qed

theorem chat_response_shape_witness:
  "(\<exists>cats. body_at (azure_openai_chat_completion sample_externals
              (sample_context ''/openai/deployments/dep-x/chat/completions''
                 (JObj [(''messages'', JList [JObj [(''role'', JStr ''user''),
                                                     (''content'', JStr ''hi'')]]),
                        (''max_tokens'', JInt 3),
                        (''stream'', JBool False)])) sample_world)
             [Key ''choices'', Index 0, Key ''content_filter_results''] = Some cats \<and>
           dict_keys cats = Some [''hate'', ''self_harm'', ''sexual'', ''violence''] \<and>
           jpath cats [Key ''hate'', Key ''filtered''] = Some (JBool False) \<and>
           jpath cats [Key ''violence'', Key ''severity''] = Some (JStr ''safe'')) \<and>
   body_at (azure_openai_chat_completion sample_externals
              (sample_context ''/openai/deployments/dep-x/chat/completions''
                 (JObj [(''messages'', JList [JObj [(''role'', JStr ''user''),
                                                     (''content'', JStr ''hi'')]]),
                        (''max_tokens'', JInt 3),
                        (''stream'', JBool False)])) sample_world)
     [Key ''choices'', Index 0, Key ''finish_reason''] = Some (JStr ''length'') \<and>
   body_at (azure_openai_chat_completion sample_externals
              (sample_context ''/openai/deployments/dep-x/chat/completions''
                 (JObj [(''messages'', JList [JObj [(''role'', JStr ''user''),
                                                     (''content'', JStr ''hi'')]]),
                        (''max_tokens'', JInt 3),
                        (''stream'', JBool False)])) sample_world)
     [Key ''usage'', Key ''total_tokens''] = Some (JInt (7 + 11))"
proof -
  let ?messages = "JList [JObj [(''role'', JStr ''user''), (''content'', JStr ''hi'')]]"
  let ?body = "JObj [(''messages'', ?messages), (''max_tokens'', JInt 3), (''stream'', JBool False)]"
  let ?c = "sample_context ''/openai/deployments/dep-x/chat/completions'' ?body"
  let ?X = "azure_openai_chat_completion sample_externals ?c sample_world"
  have route: "is_route_match sample_externals (ctx_request ?c)
      ''/openai/deployments/{deployment}/chat/completions'' [''POST''] =
      (True, map_of [(''deployment'', ''dep-x'')])"
    by (simp add: sample_externals_def sample_context_def sample_route_match_def split_on_def)
  have body: "req_json (ctx_request ?c) = Some ?body"
    by (simp add: sample_context_def)
  have words: "words_to_generate (JInt 3) = Inr 2"
    by (rule words_to_generate_three)
  have filler: "get_word sample_externals 2 = Inr ''lorem lorem''"
    by (simp add: sample_externals_def numeral_2_eq_2)
  have counts: "\<And>m. num_tokens_from_messages sample_externals ?messages m = Inr 7"
      "\<And>m. num_tokens_from_string sample_externals (JStr ''lorem lorem'') m = Inr 11"
    by (simp_all add: sample_externals_def)
  from chat_response_shape [of sample_externals ?c "''dep-x''" ?body ?messages sample_world 7
      "JInt 3" 2 "''lorem lorem''" "JBool False" 11]
    route body words filler counts
  have shape: "\<exists>cats. body_at ?X [Key ''choices'', Index 0, Key ''content_filter_results''] =
              Some cats \<and>
              dict_keys cats = Some [''hate'', ''self_harm'', ''sexual'', ''violence''] \<and>
              (\<forall>category \<in> {''hate'', ''self_harm'', ''sexual'', ''violence''}.
                 jpath cats [Key category, Key ''filtered''] = Some (JBool False) \<and>
                 jpath cats [Key category, Key ''severity''] = Some (JStr ''safe''))"
    and reason: "body_at ?X [Key ''choices'', Index 0, Key ''finish_reason''] = Some (JStr ''length'')"
    and total: "body_at ?X [Key ''usage'', Key ''total_tokens''] = Some (JInt (7 + 11))"
    by simp_all
  from shape obtain cats where
    "body_at ?X [Key ''choices'', Index 0, Key ''content_filter_results''] = Some cats"
    "dict_keys cats = Some [''hate'', ''self_harm'', ''sexual'', ''violence'']"
    "jpath cats [Key ''hate'', Key ''filtered''] = Some (JBool False)"
    "jpath cats [Key ''violence'', Key ''severity''] = Some (JStr ''safe'')"
    by blast
  with reason total show ?thesis by blast
qed

subsection \<open>The number of filler words\<close>

lemma resolver_word_requests:
  "word_requests (snd (get_model_name_from_deployment_name c d w)) = word_requests w"
  by (simp add: get_model_name_from_deployment_name_def split: option.splits)






subsection \<open>Streaming\<close>

lemma space_prefixed_chunks:
  "map (\<lambda>j. jpath j [Key ''choices'', Index 0, Key ''delta'', Key ''content''])
       (data_chunks (send_words_loop ext m ws [] k)) =
   map (\<lambda>v. Some (JStr v)) (space_prefixed ws)"
  by (cases ws) (simp_all add: send_words_loop_chunks del: jpath.simps send_words_loop.simps)

lemma chat_stream_result:
  assumes "fst (is_route_match ext (ctx_request c)
                  ''/openai/deployments/{deployment}/chat/completions'' [''POST''])"
    and "snd (is_route_match ext (ctx_request c)
                ''/openai/deployments/{deployment}/chat/completions'' [''POST'']) ''deployment'' =
           Some d"
    and "req_json (ctx_request c) = Some body"
    and "subscript body ''messages'' = Inr messages"
    and "num_tokens_from_messages ext messages
           (fst (get_model_name_from_deployment_name c d
                   (w\<lparr>body_reads := Suc (body_reads w)\<rparr>))) = Inr pt"
    and "dict_get body ''max_tokens'' (JInt 4096) = Inr max_tokens"
    and "words_to_generate max_tokens = Inr n"
    and "get_word ext n = Inr g"
    and "dict_get body ''stream'' (JBool False) = Inr stream"
    and "truthy stream"
  shows "azure_openai_chat_completion ext c w =
     (Inr (Some (StreamingResponse
        (send_words ext
           (fst (get_model_name_from_deployment_name c d (w\<lparr>body_reads := Suc (body_reads w)\<rparr>)))
           g))),
      (snd (get_model_name_from_deployment_name c d (w\<lparr>body_reads := Suc (body_reads w)\<rparr>)))
        \<lparr>word_requests := word_requests w @ [n]\<rparr>)"
proof -
  let ?w1 = "w\<lparr>body_reads := Suc (body_reads w)\<rparr>"
  obtain m w2 where res: "get_model_name_from_deployment_name c d ?w1 = (m, w2)"
    by (cases "get_model_name_from_deployment_name c d ?w1")
  obtain pp where mt: "is_route_match ext (ctx_request c)
      ''/openai/deployments/{deployment}/chat/completions'' [''POST''] = (True, pp)"
    and pp: "pp ''deployment'' = Some d"
    using assms(1,2)
    by (cases "is_route_match ext (ctx_request c)
          ''/openai/deployments/{deployment}/chat/completions'' [''POST'']") simp
  from assms(5) res have count: "num_tokens_from_messages ext messages m = Inr pt"
    by simp
  have same: "word_requests w2 = word_requests w"
    using resolver_word_requests [of c d ?w1] res by simp
  note out = chat_reaches_stream_test [OF mt assms(3) pp res assms(4) count assms(6,7,8,9)]
  show ?thesis
    using assms(10) by (simp add: out res same)
qed

text \<open>
  C4, as amended. A chat completion request with a truthy \<^verbatim>\<open>stream\<close> that reaches the
  stream, and whose filler text consists of \<open>W \<ge> 1\<close> words (words without spaces,
  joined by single spaces), is answered with a stream of exactly \<open>W\<close> chunks: the
  \<open>k\<close>-th chunk's \<^verbatim>\<open>delta.content\<close> is the \<open>k\<close>-th word, as it is for the first and
  after one space for every later one. The last emission is the plain string
  \<^verbatim>\<open>[DONE]\<close>; it occurs nowhere before, and all \<open>W\<close> chunks come before it.
\<close>

theorem stream_one_chunk_per_word:
  assumes "fst (is_route_match ext (ctx_request c)
                  ''/openai/deployments/{deployment}/chat/completions'' [''POST''])"
    and "snd (is_route_match ext (ctx_request c)
                ''/openai/deployments/{deployment}/chat/completions'' [''POST'']) ''deployment'' =
           Some d"
    and "req_json (ctx_request c) = Some body"
    and "subscript body ''messages'' = Inr messages"
    and "num_tokens_from_messages ext messages
           (fst (get_model_name_from_deployment_name c d
                   (w\<lparr>body_reads := Suc (body_reads w)\<rparr>))) = Inr pt"
    and "dict_get body ''max_tokens'' (JInt 4096) = Inr max_tokens"
    and "words_to_generate max_tokens = Inr n"
    and "get_word ext n = Inr (join_space ws)"
    and "dict_get body ''stream'' (JBool False) = Inr stream"
    and "truthy stream"
    and "ws \<noteq> []"
    and "\<forall>v\<in>set ws. CHR '' '' \<notin> set v"
  shows "\<exists>es front.
           response_stream (fst (azure_openai_chat_completion ext c w)) = Some es \<and>
           length (data_chunks es) = length ws \<and>
           map (\<lambda>j. jpath j [Key ''choices'', Index 0, Key ''delta'', Key ''content''])
               (data_chunks es) =
             map (\<lambda>v. Some (JStr v)) (space_prefixed ws) \<and>
           es = front @ [Raw ''[DONE]''] \<and>
           Raw ''[DONE]'' \<notin> set front \<and>
           data_chunks front = data_chunks es"
proof -
  let ?m = "fst (get_model_name_from_deployment_name c d (w\<lparr>body_reads := Suc (body_reads w)\<rparr>))"
  let ?es = "send_words ext ?m (join_space ws)"
  have parts: "split_on (CHR '' '') (join_space ws) = ws"
    using split_on_join_space [OF assms(11,12)] .
  have out: "response_stream (fst (azure_openai_chat_completion ext c w)) = Some ?es"
    by (simp add: chat_stream_result [OF assms(1-10)])
  from send_words_loop_sentinel [of ext ?m ws "[]" 0]
  obtain front where front: "?es = front @ [Raw ''[DONE]'']" "Raw ''[DONE]'' \<notin> set front"
      "data_chunks front = data_chunks ?es"
    by (auto simp add: send_words_def parts)
  have len: "length (data_chunks ?es) = length ws"
    by (simp add: send_words_def parts send_words_loop_length)
  have contents: "map (\<lambda>j. jpath j [Key ''choices'', Index 0, Key ''delta'', Key ''content''])
               (data_chunks ?es) =
             map (\<lambda>v. Some (JStr v)) (space_prefixed ws)"
    by (simp add: send_words_def parts space_prefixed_chunks del: jpath.simps)
  from out len contents front show ?thesis by blast
qed

theorem stream_one_chunk_per_word_witness:
  "\<exists>es. response_stream (fst (azure_openai_chat_completion sample_externals
            (sample_context ''/openai/deployments/dep-x/chat/completions''
               (JObj [(''messages'', JList []), (''max_tokens'', JInt 3),
                      (''stream'', JBool True)])) sample_world)) = Some es \<and>
         length (data_chunks es) = 2 \<and>
         map (\<lambda>j. jpath j [Key ''choices'', Index 0, Key ''delta'', Key ''content''])
             (data_chunks es) = [Some (JStr ''lorem''), Some (JStr '' lorem'')] \<and>
         last es = Raw ''[DONE]''"
proof -
  let ?body = "JObj [(''messages'', JList []), (''max_tokens'', JInt 3), (''stream'', JBool True)]"
  let ?c = "sample_context ''/openai/deployments/dep-x/chat/completions'' ?body"
  have route: "is_route_match sample_externals (ctx_request ?c)
      ''/openai/deployments/{deployment}/chat/completions'' [''POST''] =
      (True, map_of [(''deployment'', ''dep-x'')])"
    by (simp add: sample_externals_def sample_context_def sample_route_match_def split_on_def)
  have body: "req_json (ctx_request ?c) = Some ?body"
    by (simp add: sample_context_def)
  have words: "words_to_generate (JInt 3) = Inr 2"
    by (rule words_to_generate_three)
  have filler: "get_word sample_externals 2 = Inr (join_space [''lorem'', ''lorem''])"
    by (simp add: sample_externals_def numeral_2_eq_2)
  have count: "\<And>m. num_tokens_from_messages sample_externals (JList []) m = Inr 3"
    by (simp add: sample_externals_def)
  have spaceless: "\<forall>v\<in>set [''lorem'', ''lorem'']. CHR '' '' \<notin> set v"
    by simp
  from stream_one_chunk_per_word [of sample_externals ?c "''dep-x''" ?body "JList []" sample_world 3
      "JInt 3" 2 "[''lorem'', ''lorem'']" "JBool True"]
    route body words filler count spaceless
  obtain es front where
    "response_stream (fst (azure_openai_chat_completion sample_externals ?c sample_world)) = Some es"
    "length (data_chunks es) = length [''lorem'', ''lorem'']"
    "map (\<lambda>j. jpath j [Key ''choices'', Index 0, Key ''delta'', Key ''content''])
         (data_chunks es) =
       map (\<lambda>v. Some (JStr v)) (space_prefixed [''lorem'', ''lorem''])"
    "es = front @ [Raw ''[DONE]'']"
    by auto
  then show ?thesis
    by (simp del: jpath.simps)
qed

text \<open>
  C4 as it was stated fails for a filler text of no words: with \<^verbatim>\<open>"max_tokens": 1\<close> the
  budget is \<^verbatim>\<open>int(0.72) = 0\<close>, the filler text is the empty string, the text of zero
  words, and the stream still holds one chunk, not none.
\<close>

theorem stream_no_words_counterexample:
  "words_to_generate (JInt 1) = Inr 0 \<and>
   get_word sample_externals 0 = Inr (join_space []) \<and>
   map_option (length \<circ> data_chunks)
     (response_stream (fst (azure_openai_chat_completion sample_externals
        (sample_context ''/openai/deployments/dep-x/chat/completions''
           (JObj [(''messages'', JList []), (''max_tokens'', JInt 1), (''stream'', JBool True)]))
        sample_world))) = Some 1 \<and>
   length ([] :: string list) = 0"
proof -
  let ?body = "JObj [(''messages'', JList []), (''max_tokens'', JInt 1), (''stream'', JBool True)]"
  let ?c = "sample_context ''/openai/deployments/dep-x/chat/completions'' ?body"
  have fm: "fst (is_route_match sample_externals (ctx_request ?c)
      ''/openai/deployments/{deployment}/chat/completions'' [''POST''])"
    and sm: "snd (is_route_match sample_externals (ctx_request ?c)
      ''/openai/deployments/{deployment}/chat/completions'' [''POST'']) ''deployment'' =
        Some ''dep-x''"
    by (simp_all add: sample_externals_def sample_context_def sample_route_match_def split_on_def)
  have body: "req_json (ctx_request ?c) = Some ?body"
    by (simp add: sample_context_def)
  have sub: "subscript ?body ''messages'' = Inr (JList [])"
    and got: "dict_get ?body ''max_tokens'' (JInt 4096) = Inr (JInt 1)"
    and flag: "dict_get ?body ''stream'' (JBool False) = Inr (JBool True)"
    by simp_all
  have words: "words_to_generate (JInt 1) = Inr 0"
    using words_to_generate_range [of 1] by simp
  have filler: "get_word sample_externals 0 = Inr []"
    by (simp add: sample_externals_def)
  have count: "num_tokens_from_messages sample_externals (JList [])
      (fst (get_model_name_from_deployment_name ?c ''dep-x''
              (sample_world\<lparr>body_reads := Suc (body_reads sample_world)\<rparr>))) = Inr 3"
    by (simp add: sample_externals_def)
  have on: "truthy (JBool True)" by simp
  note out = chat_stream_result [OF fm sm body sub count got words filler flag on]
  have "map_option (length \<circ> data_chunks)
     (response_stream (fst (azure_openai_chat_completion sample_externals ?c sample_world))) = Some 1"
    unfolding out by (simp add: send_words_def split_on_def)
  with words filler show ?thesis by simp
qed




subsection \<open>What a streamed chat completion leaves unpublished\<close>

lemma resolver_ctx_values:
  "ctx_values (snd (get_model_name_from_deployment_name c d w)) = ctx_values w"
  by (simp add: get_model_name_from_deployment_name_def split: option.splits)

text \<open>
  C1. A request answered with a plain response leaves the world that \<open>publish\<close> built
  (\<open>embedding_result\<close>, \<open>completion_result\<close>, \<open>chat_reaches_stream_test\<close>): the limiter
  key, the operation name, the deployment name and the token counts are set. The
  streaming branch of the chat generator returns before the five assignments to
  \<^verbatim>\<open>context.values\<close>: the request below, with \<^verbatim>\<open>"stream": true\<close>, is answered with a
  stream and none of the five keys is set, while the same request with
  \<^verbatim>\<open>"stream": false\<close> sets all five.
\<close>

theorem streaming_chat_publishes_nothing:
  "response_stream (fst (azure_openai_chat_completion sample_externals
      (sample_context ''/openai/deployments/dep-x/chat/completions''
         (JObj [(''messages'', JList []), (''max_tokens'', JInt 3), (''stream'', JBool True)]))
      sample_world)) \<noteq> None \<and>
   map (ctx_values (snd (azure_openai_chat_completion sample_externals
      (sample_context ''/openai/deployments/dep-x/chat/completions''
         (JObj [(''messages'', JList []), (''max_tokens'', JInt 3), (''stream'', JBool True)]))
      sample_world)))
     [SIMULATOR_KEY_LIMITER, SIMULATOR_KEY_OPERATION_NAME, SIMULATOR_KEY_DEPLOYMENT_NAME,
      SIMULATOR_KEY_OPENAI_COMPLETION_TOKENS, SIMULATOR_KEY_OPENAI_TOTAL_TOKENS] =
     [None, None, None, None, None] \<and>
   map (ctx_values (snd (azure_openai_chat_completion sample_externals
      (sample_context ''/openai/deployments/dep-x/chat/completions''
         (JObj [(''messages'', JList []), (''max_tokens'', JInt 3), (''stream'', JBool False)]))
      sample_world)))
     [SIMULATOR_KEY_LIMITER, SIMULATOR_KEY_OPERATION_NAME, SIMULATOR_KEY_DEPLOYMENT_NAME,
      SIMULATOR_KEY_OPENAI_COMPLETION_TOKENS, SIMULATOR_KEY_OPENAI_TOTAL_TOKENS] =
     [Some (VStr ''openai''), Some (VStr ''chat-completions''), Some (VStr ''dep-x''),
      Some (VInt 11), Some (VInt 14)]"
proof -
  let ?on = "JObj [(''messages'', JList []), (''max_tokens'', JInt 3), (''stream'', JBool True)]"
  let ?off = "JObj [(''messages'', JList []), (''max_tokens'', JInt 3), (''stream'', JBool False)]"
  let ?c = "sample_context ''/openai/deployments/dep-x/chat/completions''"
  let ?w1 = "sample_world\<lparr>body_reads := Suc (body_reads sample_world)\<rparr>"
  have route: "\<And>b. is_route_match sample_externals (ctx_request (?c b))
      ''/openai/deployments/{deployment}/chat/completions'' [''POST''] =
      (True, map_of [(''deployment'', ''dep-x'')])"
    by (simp add: sample_externals_def sample_context_def sample_route_match_def split_on_def)
  have param: "map_of [(''deployment'', ''dep-x'')] ''deployment'' = Some ''dep-x''"
    by simp
  have body: "\<And>b. req_json (ctx_request (?c b)) = Some b"
    by (simp add: sample_context_def)
  have words: "words_to_generate (JInt 3) = Inr 2"
    by (rule words_to_generate_three)
  have filler: "get_word sample_externals 2 = Inr ''lorem lorem''"
    by (simp add: sample_externals_def numeral_2_eq_2)
  have counts: "\<And>m. num_tokens_from_messages sample_externals (JList []) m = Inr 3"
      "\<And>m. num_tokens_from_string sample_externals (JStr ''lorem lorem'') m = Inr 11"
    by (simp_all add: sample_externals_def)
  have untouched: "\<And>b. ctx_values (snd (get_model_name_from_deployment_name (?c b) ''dep-x'' ?w1)) =
      Map.empty"
    by (simp add: resolver_ctx_values sample_world_def)
  have on: "azure_openai_chat_completion sample_externals (?c ?on) sample_world =
      (Inr (Some (StreamingResponse
         (send_words sample_externals
            (fst (get_model_name_from_deployment_name (?c ?on) ''dep-x'' ?w1)) ''lorem lorem''))),
       (snd (get_model_name_from_deployment_name (?c ?on) ''dep-x'' ?w1))
         \<lparr>word_requests := word_requests sample_world @ [2]\<rparr>)"
    by (rule chat_stream_result [where body = "?on" and messages = "JList []" and pt = 3
          and max_tokens = "JInt 3" and stream = "JBool True"])
       (simp_all add: route body words filler counts)
  have sub: "subscript ?off ''messages'' = Inr (JList [])"
    and got: "dict_get ?off ''max_tokens'' (JInt 4096) = Inr (JInt 3)"
    and flag: "dict_get ?off ''stream'' (JBool False) = Inr (JBool False)"
    by simp_all
  note off = chat_reaches_stream_test [where w = sample_world,
      OF route [of ?off] body [of ?off] param surjective_pairing sub counts(1) got words filler flag]
  have streamed: "response_stream (fst (azure_openai_chat_completion sample_externals (?c ?on)
        sample_world)) \<noteq> None"
    unfolding on by simp
  have silent: "map (ctx_values (snd (azure_openai_chat_completion sample_externals (?c ?on)
        sample_world)))
     [SIMULATOR_KEY_LIMITER, SIMULATOR_KEY_OPERATION_NAME, SIMULATOR_KEY_DEPLOYMENT_NAME,
      SIMULATOR_KEY_OPENAI_COMPLETION_TOKENS, SIMULATOR_KEY_OPENAI_TOTAL_TOKENS] =
     [None, None, None, None, None]"
    unfolding on by (simp add: untouched)
  have published: "map (ctx_values (snd (azure_openai_chat_completion sample_externals (?c ?off)
        sample_world)))
     [SIMULATOR_KEY_LIMITER, SIMULATOR_KEY_OPERATION_NAME, SIMULATOR_KEY_DEPLOYMENT_NAME,
      SIMULATOR_KEY_OPENAI_COMPLETION_TOKENS, SIMULATOR_KEY_OPENAI_TOTAL_TOKENS] =
     [Some (VStr ''openai''), Some (VStr ''chat-completions''), Some (VStr ''dep-x''),
      Some (VInt 11), Some (VInt 14)]"
    unfolding off by (simp add: counts attempt_def set_value_def)
  from streamed silent published show ?thesis by blast
qed

end
